theory Spec2Isabelle
  imports Complex_Main "HOL-Library.Sublist" "HOL-Library.AList"
begin

text \<open>
  The client of Document Forge: the page \<open>routes/+page.svelte\<close> with its own upload,
  mapping and generate steps, the components \<open>Generator.svelte\<close> and \<open>Extractor.svelte\<close>
  that the tabbed page shows, and the requests they send to the service. Each component
  is a record of its variables and each handler a function on that record; what the
  service answers is an argument of the handler. Variables that several components
  declare under one name carry the prefix of their component: \<open>p_\<close> for the page,
  \<open>g_\<close> for the generator and \<open>x_\<close> for the extractor.
\<close>

section \<open>JavaScript values used by the components\<close>

text \<open>
  Strings are lists of characters. The model follows the source on ASCII text: the case
  conversions map the 26 Latin letters, and the class \<open>\s\<close> of the regular expression
  holds the six ASCII white-space characters (tab, line feed, vertical tab, form feed,
  carriage return, space). Characters outside ASCII are left as they are.
\<close>

definition toLowerChar :: "char \<Rightarrow> char" where
  "toLowerChar c =
     (let n = (of_char c :: nat) in if 65 \<le> n \<and> n \<le> 90 then char_of (n + 32) else c)"

definition toUpperChar :: "char \<Rightarrow> char" where
  "toUpperChar c =
     (let n = (of_char c :: nat) in if 97 \<le> n \<and> n \<le> 122 then char_of (n - 32) else c)"

definition toLowerCase :: "string \<Rightarrow> string" where
  "toLowerCase s = map toLowerChar s"

definition toUpperCase :: "string \<Rightarrow> string" where
  "toUpperCase s = map toUpperChar s"

definition endsWith :: "string \<Rightarrow> string \<Rightarrow> bool" where
  "endsWith s sfx = suffix sfx s"

definition isSpace :: "char \<Rightarrow> bool" where
  "isSpace c = (c \<in> set [char_of (9::nat), char_of (10::nat), char_of (11::nat),
                          char_of (12::nat), char_of (13::nat), CHR '' ''])"

text \<open>\<open>s.replace(/\s/g, "")\<close>: every white-space character is removed.\<close>

definition removeSpaces :: "string \<Rightarrow> string" where
  "removeSpaces s = filter (\<lambda>c. \<not> isSpace c) s"

text \<open>\<open>s.replace("#", "")\<close>: a string pattern replaces the first occurrence only.\<close>

definition removeFirstHash :: "string \<Rightarrow> string" where
  "removeFirstHash s = remove1 (CHR ''#'') s"

text \<open>The decimal digits of a number, as a template literal prints it.\<close>

fun decimal :: "nat \<Rightarrow> string" where
  "decimal n =
     (if n < 10 then [char_of (48 + n)]
      else decimal (n div 10) @ [char_of (48 + n mod 10)])"

declare decimal.simps [simp del]

text \<open>
  An awaited promise either rejects, with an error whose \<open>message\<close> is the string, or
  resolves to a value.
\<close>

datatype 'a await = Rejects string | Resolves 'a

text \<open>
  The body of a service response as the handlers read it: the members they access, and
  \<open>detail\<close>, the member in which the service reports the message of a failure.
\<close>

record api_body =
  session_id :: string
  csv_headers :: "string list"
  docx_placeholders :: "string list"
  total_rows :: int
  detail :: "string option"

text \<open>
  A response of \<open>fetch\<close>: the flag \<open>ok\<close>, what \<open>response.json()\<close> gives and what
  \<open>response.blob()\<close> gives. A blob is known to the client by the object URL that
  \<open>createObjectURL\<close> makes for it.
\<close>

record response =
  ok :: bool
  json :: "api_body await"
  blob :: "string await"

record File =
  name :: string
  content :: "nat list"

section \<open>Extractor.svelte\<close>

datatype processing_option = allText | tablesOnly

datatype output_format = excel | csv

fun processing_option_str :: "processing_option \<Rightarrow> string" where
  "processing_option_str allText = ''allText''"
| "processing_option_str tablesOnly = ''tablesOnly''"

fun output_format_str :: "output_format \<Rightarrow> string" where
  "output_format_str excel = ''excel''"
| "output_format_str csv = ''csv''"

record extractor =
  x_step :: nat
  pdfFile :: "File option"
  x_isUploading :: bool
  processingOption :: processing_option
  outputFormat :: output_format
  x_errorMsg :: string

definition extractor_init :: extractor where
  "extractor_init =
     \<lparr>x_step = 1, pdfFile = None, x_isUploading = False, processingOption = allText,
      outputFormat = excel, x_errorMsg = ''''\<rparr>"

definition processPdfSelection :: "File \<Rightarrow> extractor \<Rightarrow> extractor" where
  "processPdfSelection f st =
     (if \<not> endsWith (toLowerCase (name f)) ''.pdf''
      then st\<lparr>x_errorMsg := ''Please upload a valid PDF file.''\<rparr>
      else st\<lparr>pdfFile := Some f, x_errorMsg := '''', x_step := 2\<rparr>)"

definition clearFile :: "extractor \<Rightarrow> extractor" where
  "clearFile st = st\<lparr>pdfFile := None, x_step := 1, x_errorMsg := ''''\<rparr>"

text \<open>The form that \<open>handleExtract\<close> posts to \<open>/converter/extract\<close>.\<close>

record extract_request =
  form_pdfFile :: File
  form_processingOption :: string
  form_outputFormat :: string

text \<open>
  \<open>handleExtract\<close> up to its \<open>fetch\<close>: nothing happens without a file; otherwise the
  flag and the message are set and the form is posted.
\<close>

definition handleExtract_request :: "extractor \<Rightarrow> extract_request option" where
  "handleExtract_request st =
     (case pdfFile st of
        None \<Rightarrow> None
      | Some f \<Rightarrow>
          Some \<lparr>form_pdfFile = f,
                form_processingOption = processing_option_str (processingOption st),
                form_outputFormat = output_format_str (outputFormat st)\<rparr>)"

definition handleExtract_begin :: "extractor \<Rightarrow> extractor" where
  "handleExtract_begin st =
     (case pdfFile st of
        None \<Rightarrow> st
      | Some f \<Rightarrow> st\<lparr>x_isUploading := True, x_errorMsg := ''''\<rparr>)"

text \<open>The extension of the name under which the response is saved.\<close>

definition download_ext :: "processing_option \<Rightarrow> output_format \<Rightarrow> string" where
  "download_ext opt fmt =
     (let ext = (if fmt = csv then ''csv'' else ''xlsx'')
      in if opt = tablesOnly \<and> fmt = csv then ''zip'' else ext)"

definition download_name :: "processing_option \<Rightarrow> output_format \<Rightarrow> nat \<Rightarrow> string" where
  "download_name opt fmt now =
     ''Extracted_'' @ processing_option_str opt @ ''_'' @ decimal now @ ''.'' @ download_ext opt fmt"

text \<open>
  The body of the \<open>try\<close>: it ends by a thrown error (\<open>Inl\<close> its message) or by the
  download of the blob (\<open>Inr\<close> the object URL and the file name).
\<close>

definition handleExtract_try ::
  "extractor \<Rightarrow> response await \<Rightarrow> nat \<Rightarrow> string + (string \<times> string)" where
  "handleExtract_try st fetched now =
     (case fetched of
        Rejects m \<Rightarrow> Inl m
      | Resolves r \<Rightarrow>
          if \<not> ok r then
            (case json r of
               Rejects m \<Rightarrow> Inl m
             | Resolves errData \<Rightarrow>
                 Inl (case detail errData of
                        None \<Rightarrow> ''Extraction failed''
                      | Some d \<Rightarrow> if d = [] then ''Extraction failed'' else d))
          else
            (case blob r of
               Rejects m \<Rightarrow> Inl m
             | Resolves url \<Rightarrow>
                 Inr (url, download_name (processingOption st) (outputFormat st) now)))"

text \<open>
  \<open>handleExtract\<close> after its \<open>fetch\<close> has settled: the new state and the download, if
  one was triggered. \<open>now\<close> is the value of \<open>new Date().getTime()\<close>.
\<close>

definition handleExtract_settle ::
  "extractor \<Rightarrow> response await \<Rightarrow> nat \<Rightarrow> extractor \<times> (string \<times> string) option" where
  "handleExtract_settle st fetched now =
     (case handleExtract_try st fetched now of
        Inr d \<Rightarrow> ((clearFile st)\<lparr>x_isUploading := False\<rparr>, Some d)
      | Inl m \<Rightarrow>
          (st\<lparr>x_errorMsg := (if m = [] then ''Could not connect to the extraction server.'' else m),
              x_isUploading := False\<rparr>, None))"

definition handleExtract ::
  "extractor \<Rightarrow> response await \<Rightarrow> nat \<Rightarrow> extractor \<times> (string \<times> string) option" where
  "handleExtract st fetched now =
     (case pdfFile st of
        None \<Rightarrow> (st, None)
      | Some f \<Rightarrow> handleExtract_settle (handleExtract_begin st) fetched now)"

text \<open>
  What the user and the pending request can do to the component. The request of
  \<open>handleExtract\<close> is in flight between \<open>Click_extract\<close> and \<open>Settle\<close>, and the other
  events may come in between.
\<close>

datatype extractor_event =
    Select_pdf File
  | Click_clear
  | Dismiss_error
  | Choose_option processing_option
  | Choose_format output_format
  | Click_extract
  | Settle "response await" nat

fun extractor_step :: "extractor \<Rightarrow> extractor_event \<Rightarrow> extractor" where
  "extractor_step st (Select_pdf f) = processPdfSelection f st"
| "extractor_step st Click_clear = clearFile st"
| "extractor_step st Dismiss_error = st\<lparr>x_errorMsg := ''''\<rparr>"
| "extractor_step st (Choose_option opt) = st\<lparr>processingOption := opt\<rparr>"
| "extractor_step st (Choose_format fmt) = st\<lparr>outputFormat := fmt\<rparr>"
| "extractor_step st Click_extract = handleExtract_begin st"
| "extractor_step st (Settle fetched now) = fst (handleExtract_settle st fetched now)"

definition extractor_run :: "extractor_event list \<Rightarrow> extractor" where
  "extractor_run evs = foldl extractor_step extractor_init evs"

definition is_pdf_name :: "string \<Rightarrow> bool" where
  "is_pdf_name n = endsWith (toLowerCase n) ''.pdf''"

section \<open>JSON and objects used as records\<close>

text \<open>
  A \<open>Record<string, T>\<close> is the list of its own entries, with distinct keys, in the order
  in which \<open>Object.entries\<close> gives them: the keys that are array indices first, in
  ascending numeric order, then the other keys in the order of their creation.
\<close>

definition isDigit :: "char \<Rightarrow> bool" where
  "isDigit c = (let n = (of_char c :: nat) in 48 \<le> n \<and> n \<le> 57)"

definition digitsValue :: "string \<Rightarrow> int" where
  "digitsValue s = foldl (\<lambda>n c. 10 * n + ((of_char c :: int) - 48)) 0 s"

text \<open>
  A key is an array index when it is the decimal numeral, without leading zeros, of a
  number below \<open>2^32 - 1\<close>.
\<close>

definition arrayIndex :: "string \<Rightarrow> int option" where
  "arrayIndex k =
     (if k \<noteq> [] \<and> list_all isDigit k \<and> (k = ''0'' \<or> hd k \<noteq> CHR ''0'') \<and>
         digitsValue k < 4294967295
      then Some (digitsValue k) else None)"

fun insertIndex :: "int \<Rightarrow> string \<Rightarrow> 'a \<Rightarrow> (string \<times> 'a) list \<Rightarrow> (string \<times> 'a) list" where
  "insertIndex n k v [] = [(k, v)]"
| "insertIndex n k v (e # es) =
     (case arrayIndex (fst e) of
        Some m \<Rightarrow> if m < n then e # insertIndex n k v es else (k, v) # e # es
      | None \<Rightarrow> (k, v) # e # es)"

text \<open>
  \<open>obj[k] = v\<close> on a plain object, for a value \<open>v\<close> that is an object. The key
  \<open>__proto__\<close> names the prototype: the assignment replaces the prototype and makes no
  entry. The entry of an existing key is replaced where it stands. A new key that is an
  array index goes to its place among the indices, any other new key to the end.
\<close>

definition objAssign :: "string \<Rightarrow> 'a \<Rightarrow> (string \<times> 'a) list \<Rightarrow> (string \<times> 'a) list" where
  "objAssign k v obj =
     (if k = ''__proto__'' then obj
      else if k \<in> set (map fst obj) then AList.update k v obj
      else (case arrayIndex k of
              Some n \<Rightarrow> insertIndex n k v obj
            | None \<Rightarrow> obj @ [(k, v)]))"

text \<open>
  A loop over \<open>Object.entries(obj)\<close> that assigns every key to a fresh object meets no
  key \<open>__proto__\<close> and meets the keys in the order of the fresh object, so there
  \<open>fresh[k] = v\<close> is \<open>AList.update k v fresh\<close>.
\<close>

datatype json_value =
    JNull
  | JBool bool
  | JNum rat
  | JStr string
  | JObj "(string \<times> json_value) list"

fun json_keys :: "json_value \<Rightarrow> string list" where
  "json_keys (JObj kvs) = map fst kvs"
| "json_keys _ = []"

fun json_get :: "json_value \<Rightarrow> string \<Rightarrow> json_value option" where
  "json_get (JObj kvs) k = map_of kvs k"
| "json_get _ k = None"

section \<open>routes/+page.svelte\<close>

datatype MappingType_page = P_csv_column | P_custom_text | P_combined

fun MappingType_page_str :: "MappingType_page \<Rightarrow> string" where
  "MappingType_page_str P_csv_column = ''csv_column''"
| "MappingType_page_str P_custom_text = ''custom_text''"
| "MappingType_page_str P_combined = ''combined''"

record MappingConfig_page =
  p_type :: MappingType_page
  p_value :: string
  p_customText :: string
  p_prefix :: string
  p_suffix :: string

record page_options =
  p_docx :: bool
  p_pdf :: bool

record page =
  p_step :: nat
  csvFile :: "File option"
  p_docxFile :: "File option"
  p_isUploading :: bool
  p_sessionId :: string
  p_errorMsg :: string
  csvHeaders :: "string list"
  p_docxPlaceholders :: "string list"
  p_totalRows :: int
  p_mappings :: "(string \<times> MappingConfig_page) list"
  p_options :: page_options
  p_isGenerating :: bool
  p_generationComplete :: bool
  p_downloadUrl :: string

definition page_init :: page where
  "page_init =
     \<lparr>p_step = 1, csvFile = None, p_docxFile = None, p_isUploading = False, p_sessionId = [],
      p_errorMsg = [], csvHeaders = [], p_docxPlaceholders = [], p_totalRows = 0,
      p_mappings = [], p_options = \<lparr>p_docx = True, p_pdf = True\<rparr>, p_isGenerating = False,
      p_generationComplete = False, p_downloadUrl = []\<rparr>"

definition cleanPh :: "string \<Rightarrow> string" where
  "cleanPh ph = removeSpaces (toLowerCase (removeFirstHash ph))"

text \<open>The \<open>for\<close> loop over the headers: the first header that matches, or the empty string.\<close>

fun matchHeader :: "string list \<Rightarrow> string \<Rightarrow> string" where
  "matchHeader [] ph = []"
| "matchHeader (header # headers) ph =
     (let cleanHeader = removeSpaces (toLowerCase header)
      in if cleanHeader = cleanPh ph \<or> (header = ''P_ ADDRESS'' \<and> ph = ''#P_ ADDRESS'')
         then header
         else matchHeader headers ph)"

definition detect_page :: "string list \<Rightarrow> string \<Rightarrow> MappingConfig_page" where
  "detect_page headers ph =
     (let match = matchHeader headers ph
      in \<lparr>p_type = (if match \<noteq> [] then P_csv_column else P_custom_text),
          p_value = match, p_customText = [], p_prefix = [], p_suffix = []\<rparr>)"

definition autoDetectMappings_page :: "page \<Rightarrow> page" where
  "autoDetectMappings_page st =
     st\<lparr>p_mappings :=
          foldl (\<lambda>m ph. objAssign ph (detect_page (csvHeaders st) ph) m)
            (p_mappings st) (p_docxPlaceholders st)\<rparr>"

text \<open>
  The body of the \<open>try\<close> of \<open>handleUpload\<close>: the state when the block is left, and the
  message of the error if one was thrown. The metadata request names the session, so
  its outcome is a function of the session identifier.
\<close>

definition handleUpload_try ::
  "page \<Rightarrow> response await \<Rightarrow> (string \<Rightarrow> response await) \<Rightarrow> page \<times> string option" where
  "handleUpload_try st upFetched metaFetch =
     (case upFetched of
        Rejects m \<Rightarrow> (st, Some m)
      | Resolves upRes \<Rightarrow>
          if \<not> ok upRes then (st, Some ''Upload failed'')
          else
            (case json upRes of
               Rejects m \<Rightarrow> (st, Some m)
             | Resolves upData \<Rightarrow>
                 (let st1 = st\<lparr>p_sessionId := session_id upData\<rparr>
                  in case metaFetch (p_sessionId st1) of
                       Rejects m \<Rightarrow> (st1, Some m)
                     | Resolves metaRes \<Rightarrow>
                         if \<not> ok metaRes then (st1, Some ''Metadata extraction failed'')
                         else
                           (case json metaRes of
                              Rejects m \<Rightarrow> (st1, Some m)
                            | Resolves metaData \<Rightarrow>
                                (let st2 = st1\<lparr>csvHeaders := csv_headers metaData,
                                             p_docxPlaceholders := docx_placeholders metaData,
                                             p_totalRows := total_rows metaData\<rparr>
                                 in ((autoDetectMappings_page st2)\<lparr>p_step := 2\<rparr>, None))))))"

definition handleUpload_page ::
  "page \<Rightarrow> response await \<Rightarrow> (string \<Rightarrow> response await) \<Rightarrow> page" where
  "handleUpload_page st upFetched metaFetch =
     (if csvFile st = None \<or> p_docxFile st = None then st
      else
        (let (st1, thrown) =
               handleUpload_try (st\<lparr>p_isUploading := True, p_errorMsg := []\<rparr>) upFetched metaFetch;
             st2 = (case thrown of None \<Rightarrow> st1 | Some m \<Rightarrow> st1\<lparr>p_errorMsg := m\<rparr>)
         in st2\<lparr>p_isUploading := False\<rparr>))"

text \<open>The entry that \<open>handleGenerate\<close> sends for one placeholder.\<close>

record clean_entry =
  c_type :: string
  c_value :: string
  c_prefix :: string
  c_suffix :: string

definition clean_page :: "MappingConfig_page \<Rightarrow> clean_entry" where
  "clean_page conf =
     \<lparr>c_type = MappingType_page_str (p_type conf),
      c_value = (if p_type conf = P_custom_text then p_customText conf else p_value conf),
      c_prefix = p_prefix conf,
      c_suffix = p_suffix conf\<rparr>"

definition cleanMapping_page ::
  "(string \<times> MappingConfig_page) list \<Rightarrow> (string \<times> clean_entry) list" where
  "cleanMapping_page mappings =
     foldl (\<lambda>cleanMapping (key, conf). AList.update key (clean_page conf) cleanMapping)
       [] mappings"

definition clean_entry_json :: "clean_entry \<Rightarrow> json_value" where
  "clean_entry_json e =
     JObj [(''type'', JStr (c_type e)), (''value'', JStr (c_value e)),
           (''prefix'', JStr (c_prefix e)), (''suffix'', JStr (c_suffix e))]"

definition cleanMapping_json :: "(string \<times> clean_entry) list \<Rightarrow> json_value" where
  "cleanMapping_json cleanMapping = JObj (map (\<lambda>(key, e). (key, clean_entry_json e)) cleanMapping)"

text \<open>The object that \<open>handleGenerate\<close> serialises as the body of its request.\<close>

definition generate_body_page :: "page \<Rightarrow> json_value" where
  "generate_body_page st =
     JObj [(''session_id'', JStr (p_sessionId st)),
           (''mapping'', cleanMapping_json (cleanMapping_page (p_mappings st))),
           (''generate_docx'', JBool (p_docx (p_options st))),
           (''generate_pdf'', JBool (p_pdf (p_options st)))]"

definition handleGenerate_try :: "page \<Rightarrow> response await \<Rightarrow> page \<times> string option" where
  "handleGenerate_try st fetched =
     (case fetched of
        Rejects m \<Rightarrow> (st, Some m)
      | Resolves response \<Rightarrow>
          if \<not> ok response then (st, Some ''Generation failed'')
          else
            (case blob response of
               Rejects m \<Rightarrow> (st, Some m)
             | Resolves url \<Rightarrow>
                 (st\<lparr>p_downloadUrl := url, p_generationComplete := True, p_step := 3\<rparr>, None)))"

definition handleGenerate_page :: "page \<Rightarrow> response await \<Rightarrow> page" where
  "handleGenerate_page st fetched =
     (let (st1, thrown) =
            handleGenerate_try (st\<lparr>p_isGenerating := True, p_errorMsg := []\<rparr>) fetched;
          st2 = (case thrown of None \<Rightarrow> st1 | Some m \<Rightarrow> st1\<lparr>p_errorMsg := m\<rparr>)
      in st2\<lparr>p_isGenerating := False\<rparr>)"

text \<open>The \<open>disabled\<close> attribute of the two buttons.\<close>

definition upload_disabled_page :: "page \<Rightarrow> bool" where
  "upload_disabled_page st = (csvFile st = None \<or> p_docxFile st = None \<or> p_isUploading st)"

definition generate_disabled_page :: "page \<Rightarrow> bool" where
  "generate_disabled_page st = (length (p_mappings st) = 0 \<or> p_isGenerating st)"

text \<open>
  The events of the page. Each block of the markup is rendered for one value of \<open>step\<close>:
  the file inputs and the upload button for 1, the mapping cards (one for each
  placeholder) with the option toggles and the generate button for 2. A file input
  gives the chosen file, or none when the choice is cancelled. A disabled button does
  not fire, and an event whose control is not rendered does nothing.
\<close>

datatype page_event =
    Pick_csv "File option"
  | Pick_docx "File option"
  | Click_upload "response await" "string \<Rightarrow> response await"
  | Set_type string MappingType_page
  | Bind_value string string
  | Bind_customText string string
  | Bind_prefix string string
  | Bind_suffix string string
  | Toggle_docx
  | Toggle_pdf
  | Click_generate "response await"

definition edit_mapping ::
  "string \<Rightarrow> (MappingConfig_page \<Rightarrow> MappingConfig_page) \<Rightarrow> page \<Rightarrow> page" where
  "edit_mapping ph f st =
     (if p_step st = 2 \<and> ph \<in> set (p_docxPlaceholders st)
      then st\<lparr>p_mappings := AList.map_entry ph f (p_mappings st)\<rparr>
      else st)"

fun page_step :: "page \<Rightarrow> page_event \<Rightarrow> page" where
  "page_step st (Pick_csv f) = (if p_step st = 1 then st\<lparr>csvFile := f\<rparr> else st)"
| "page_step st (Pick_docx f) = (if p_step st = 1 then st\<lparr>p_docxFile := f\<rparr> else st)"
| "page_step st (Click_upload upFetched metaFetch) =
     (if p_step st = 1 \<and> \<not> upload_disabled_page st
      then handleUpload_page st upFetched metaFetch else st)"
| "page_step st (Set_type ph t) = edit_mapping ph (\<lambda>c. c\<lparr>p_type := t\<rparr>) st"
| "page_step st (Bind_value ph v) = edit_mapping ph (\<lambda>c. c\<lparr>p_value := v\<rparr>) st"
| "page_step st (Bind_customText ph v) = edit_mapping ph (\<lambda>c. c\<lparr>p_customText := v\<rparr>) st"
| "page_step st (Bind_prefix ph v) = edit_mapping ph (\<lambda>c. c\<lparr>p_prefix := v\<rparr>) st"
| "page_step st (Bind_suffix ph v) = edit_mapping ph (\<lambda>c. c\<lparr>p_suffix := v\<rparr>) st"
| "page_step st Toggle_docx =
     (if p_step st = 2
      then st\<lparr>p_options := (p_options st)\<lparr>p_docx := \<not> p_docx (p_options st)\<rparr>\<rparr> else st)"
| "page_step st Toggle_pdf =
     (if p_step st = 2
      then st\<lparr>p_options := (p_options st)\<lparr>p_pdf := \<not> p_pdf (p_options st)\<rparr>\<rparr> else st)"
| "page_step st (Click_generate fetched) =
     (if p_step st = 2 \<and> \<not> generate_disabled_page st
      then handleGenerate_page st fetched else st)"

definition page_run :: "page_event list \<Rightarrow> page" where
  "page_run evs = foldl page_step page_init evs"

text \<open>The body of the generate request that an event of the page sends, if it sends one.\<close>

fun page_request :: "page \<Rightarrow> page_event \<Rightarrow> json_value option" where
  "page_request st (Click_generate fetched) =
     (if p_step st = 2 \<and> \<not> generate_disabled_page st then Some (generate_body_page st) else None)"
| "page_request st ev = None"

section \<open>lib/components/Generator.svelte\<close>

datatype MappingType_gen = G_data_column | G_custom_text | G_combined

fun MappingType_gen_str :: "MappingType_gen \<Rightarrow> string" where
  "MappingType_gen_str G_data_column = ''data_column''"
| "MappingType_gen_str G_custom_text = ''custom_text''"
| "MappingType_gen_str G_combined = ''combined''"

text \<open>The optional members \<open>fallback\<close>, \<open>modifier\<close> and \<open>fromMemory\<close> are \<open>None\<close> when absent.\<close>

record MappingConfig_gen =
  g_type :: MappingType_gen
  g_value :: string
  g_customText :: string
  g_prefix :: string
  g_suffix :: string
  g_fallback :: "string option"
  g_modifier :: "string option"
  g_fromMemory :: "bool option"

record gen_options =
  g_docx :: bool
  g_pdf :: bool
  removeEmptyPages :: bool
  mergeOutput :: bool

record doc_settings =
  pageSize :: string
  customWidth :: rat
  customHeight :: rat
  fontName :: string
  fontSize :: rat

text \<open>
  The state of the component that the functions below read or write. Rows of the data
  set are maps from column names to strings.
\<close>

record generator =
  g_step :: nat
  g_sessionId :: string
  g_errorMsg :: string
  previewRows :: "(string \<rightharpoonup> string) list"
  dataHeaders :: "string list"
  g_docxPlaceholders :: "string list"
  g_totalRows :: int
  g_mappings :: "(string \<times> MappingConfig_gen) list"
  g_options :: gen_options
  g_isGenerating :: bool
  g_generationComplete :: bool
  g_downloadUrl :: string
  docSettings :: doc_settings
  rowsPerDoc :: int
  progressCurrent :: int
  progressTotal :: int
  progressMessage :: string
  wsConnection :: "string option"

definition generator_init :: generator where
  "generator_init =
     \<lparr>g_step = 1, g_sessionId = [], g_errorMsg = [], previewRows = [], dataHeaders = [],
      g_docxPlaceholders = [], g_totalRows = 0, g_mappings = [],
      g_options = \<lparr>g_docx = True, g_pdf = True, removeEmptyPages = True, mergeOutput = False\<rparr>,
      g_isGenerating = False, g_generationComplete = False, g_downloadUrl = [],
      docSettings = \<lparr>pageSize = ''default'', customWidth = 17 / 2, customHeight = 11,
                      fontName = [], fontSize = 0\<rparr>,
      rowsPerDoc = 1, progressCurrent = 0, progressTotal = 0, progressMessage = [],
      wsConnection = None\<rparr>"

text \<open>\<open>$: estimatedDocs = rowsPerDoc > 0 ? Math.ceil(totalRows / rowsPerDoc) : totalRows\<close>\<close>

definition estimatedDocs :: "generator \<Rightarrow> int" where
  "estimatedDocs st =
     (if rowsPerDoc st > 0
      then \<lceil>(of_int (g_totalRows st) :: rat) / of_int (rowsPerDoc st)\<rceil>
      else g_totalRows st)"




definition clean_gen :: "MappingConfig_gen \<Rightarrow> clean_entry" where
  "clean_gen conf =
     \<lparr>c_type = MappingType_gen_str (g_type conf),
      c_value = (if g_type conf = G_custom_text then g_customText conf else g_value conf),
      c_prefix = g_prefix conf,
      c_suffix = g_suffix conf\<rparr>"

definition cleanMapping_gen ::
  "(string \<times> MappingConfig_gen) list \<Rightarrow> (string \<times> clean_entry) list" where
  "cleanMapping_gen mappings =
     foldl (\<lambda>cleanMapping (key, conf). AList.update key (clean_gen conf) cleanMapping)
       [] mappings"

text \<open>\<open>x || null\<close> of a string and of a number.\<close>

definition str_or_null :: "string \<Rightarrow> json_value" where
  "str_or_null s = (if s = [] then JNull else JStr s)"

definition num_or_null :: "rat \<Rightarrow> json_value" where
  "num_or_null x = (if x = 0 then JNull else JNum x)"

definition doc_settings_json :: "doc_settings \<Rightarrow> json_value" where
  "doc_settings_json ds =
     JObj [(''page_size'', JStr (pageSize ds)),
           (''page_width'', if pageSize ds = ''custom'' then JNum (customWidth ds) else JNull),
           (''page_height'', if pageSize ds = ''custom'' then JNum (customHeight ds) else JNull),
           (''font_name'', str_or_null (fontName ds)),
           (''font_size'', num_or_null (fontSize ds))]"

definition generate_body_gen :: "generator \<Rightarrow> json_value" where
  "generate_body_gen st =
     JObj [(''session_id'', JStr (g_sessionId st)),
           (''mapping'', cleanMapping_json (cleanMapping_gen (g_mappings st))),
           (''generate_docx'', JBool (g_docx (g_options st))),
           (''generate_pdf'', JBool (g_pdf (g_options st))),
           (''remove_empty_pages'', JBool (removeEmptyPages (g_options st))),
           (''merge_output'', JBool (mergeOutput (g_options st))),
           (''rows_per_doc'', JNum (of_int (rowsPerDoc st))),
           (''doc_settings'', doc_settings_json (docSettings st))]"

text \<open>
  A progress event that the socket delivers while the request is in flight: its \<open>type\<close>,
  its \<open>current\<close>, and its \<open>total\<close> and \<open>message\<close> when it has them.
\<close>

record progress_event =
  ev_type :: string
  ev_current :: int
  ev_total :: "int option"
  ev_message :: "string option"

definition onmessage :: "generator \<Rightarrow> progress_event \<Rightarrow> generator" where
  "onmessage st data =
     (if ev_type data = ''progress''
      then
        (let st1 = st\<lparr>progressCurrent := ev_current data\<rparr>;
             st2 = (case ev_total data of
                      None \<Rightarrow> st1
                    | Some t \<Rightarrow> if t \<noteq> 0 then st1\<lparr>progressTotal := t\<rparr> else st1)
         in case ev_message data of
              None \<Rightarrow> st2
            | Some m \<Rightarrow> if m \<noteq> [] then st2\<lparr>progressMessage := m\<rparr> else st2)
      else st)"

definition handleGenerate_gen_try :: "generator \<Rightarrow> response await \<Rightarrow> generator \<times> string option" where
  "handleGenerate_gen_try st fetched =
     (case fetched of
        Rejects m \<Rightarrow> (st, Some m)
      | Resolves response \<Rightarrow>
          if \<not> ok response then (st, Some ''Generation failed'')
          else
            (case blob response of
               Rejects m \<Rightarrow> (st, Some m)
             | Resolves url \<Rightarrow>
                 (st\<lparr>g_downloadUrl := url, g_generationComplete := True, g_step := 3\<rparr>, None)))"

text \<open>
  \<open>handleGenerate\<close> of the component. The socket is opened before the \<open>try\<close>: when its
  constructor throws (\<open>wsThrows\<close>), the handler ends there and sends nothing. Otherwise
  the request is sent with the body above, the progress events \<open>events\<close> arrive while it
  is awaited, and the \<open>finally\<close> block closes the socket.
\<close>

definition handleGenerate_gen_request :: "generator \<Rightarrow> bool \<Rightarrow> json_value option" where
  "handleGenerate_gen_request st wsThrows = (if wsThrows then None else Some (generate_body_gen st))"

definition handleGenerate_gen ::
  "generator \<Rightarrow> bool \<Rightarrow> progress_event list \<Rightarrow> response await \<Rightarrow> generator" where
  "handleGenerate_gen st wsThrows events fetched =
     (let st0 = st\<lparr>g_isGenerating := True, g_errorMsg := [], progressCurrent := 0,
                    progressTotal := g_totalRows st, progressMessage := ''Starting generation...''\<rparr>
      in if wsThrows then st0
         else
           (let st1 = st0\<lparr>wsConnection := Some (''ws://localhost:8000/ws/progress/'' @ g_sessionId st0)\<rparr>;
                (st2, thrown) = handleGenerate_gen_try (foldl onmessage st1 events) fetched;
                st3 = (case thrown of None \<Rightarrow> st2 | Some m \<Rightarrow> st2\<lparr>g_errorMsg := m\<rparr>)
            in st3\<lparr>wsConnection := None, g_isGenerating := False\<rparr>))"

text \<open>The generate button is rendered while no generation runs, with this \<open>disabled\<close>.\<close>

definition generate_disabled_gen :: "generator \<Rightarrow> bool" where
  "generate_disabled_gen st = (length (g_mappings st) = 0)"

section \<open>The Mapping Resolver of the service\<close>

text \<open>
  Modelled from the spec: the tag of a MappingConfig. The Mapping Resolver runs in the
  service, whose code is not among the sources; the components only build the
  configurations and send them.
\<close>

datatype config_type = data_column | custom_text | combined

text \<open>
  Modelled from the spec: the case modifier of a MappingConfig of the service, which is
  not among the sources: uppercase, lowercase or none.
\<close>

datatype case_modifier = uppercase | lowercase | no_modifier

text \<open>
  Modelled from the spec: the MappingConfig that the Mapping Resolver of the service,
  which is not among the sources, receives: the column name \<open>value\<close>, the literal
  \<open>customText\<close>, prefix, suffix, case modifier, and the fallback text if one is set.
\<close>

record resolver_config =
  r_type :: config_type
  r_value :: string
  r_customText :: string
  r_prefix :: string
  r_suffix :: string
  r_modifier :: case_modifier
  r_fallback :: "string option"

text \<open>
  Modelled from the spec: step 1 of the algorithm of the Mapping Resolver, which is not
  among the sources. The base value is \<open>config.customText\<close> for the type \<open>custom_text\<close>;
  for the other types it is \<open>row[config.value]\<close> if the key exists, else the empty
  string.
\<close>

definition baseValue :: "resolver_config \<Rightarrow> (string \<rightharpoonup> string) \<Rightarrow> string" where
  "baseValue config row =
     (if r_type config = custom_text then r_customText config
      else (case row (r_value config) of None \<Rightarrow> [] | Some v \<Rightarrow> v))"

text \<open>
  Modelled from the spec: the case modifier of step 2 of the Mapping Resolver, which is
  not among the sources, applied if set.
\<close>

definition applyModifier :: "case_modifier \<Rightarrow> string \<Rightarrow> string" where
  "applyModifier m s =
     (case m of uppercase \<Rightarrow> toUpperCase s | lowercase \<Rightarrow> toLowerCase s | no_modifier \<Rightarrow> s)"

text \<open>
  Modelled from the spec: \<open>resolve(placeholder, config, row)\<close> of the Mapping Resolver,
  which is not among the sources. For \<open>data_column\<close> the case modifier is applied to the
  base value, and the fallback, if set, stands in for an empty result. For \<open>combined\<close> the
  result is prefix, base value and suffix. For \<open>custom_text\<close> the result is the base
  value: prefix, suffix and modifiers are ignored.
\<close>

definition resolve :: "string \<Rightarrow> resolver_config \<Rightarrow> (string \<rightharpoonup> string) \<Rightarrow> string" where
  "resolve placeholder config row =
     (case r_type config of
        data_column \<Rightarrow>
          (let result = applyModifier (r_modifier config) (baseValue config row)
           in case r_fallback config of
                None \<Rightarrow> result
              | Some fallback \<Rightarrow> if result = [] then fallback else result)
      | combined \<Rightarrow> r_prefix config @ baseValue config row @ r_suffix config
      | custom_text \<Rightarrow> baseValue config row)"

section \<open>The Table/Text Extractor of the service\<close>

text \<open>
  Modelled from the spec: what the Table/Text Extractor of the service, which is not
  among the sources, finds on a page of a parsed PDF. The spec leaves the detection to
  the extractor and fixes what it puts out, so a page is given by its regions: a grid
  (ruled or whitespace-aligned) with its rows of cells, or prose with its lines.
\<close>

datatype region = Grid "string list list" | Prose "string list"

text \<open>
  Modelled from the spec: the mode \<open>tablesOnly\<close> of the extractor, which is not among the
  sources, keeps the grids of a page and discards the other regions.
\<close>

fun gridsOf :: "region list \<Rightarrow> string list list list" where
  "gridsOf [] = []"
| "gridsOf (Grid t # rs) = t # gridsOf rs"
| "gridsOf (Prose ls # rs) = gridsOf rs"

text \<open>
  Modelled from the spec: the mode \<open>allText\<close> of the extractor, which is not among the
  sources, rebuilds a page as one table: the rows of its grids, with the cells as
  columns, and the lines of the surrounding prose as additional rows.
\<close>

fun regionRows :: "region \<Rightarrow> string list list" where
  "regionRows (Grid t) = t"
| "regionRows (Prose ls) = map (\<lambda>l. [l]) ls"

definition pageSheet :: "region list \<Rightarrow> string list list" where
  "pageSheet page = concat (map regionRows page)"

text \<open>
  Modelled from the spec: the tables that the extractor, which is not among the sources,
  produces: the detected tables in the mode \<open>tablesOnly\<close>, one table for each page in
  the mode \<open>allText\<close>.
\<close>

definition produced :: "processing_option \<Rightarrow> region list list \<Rightarrow> string list list list" where
  "produced mode pages =
     (case mode of
        tablesOnly \<Rightarrow> concat (map gridsOf pages)
      | allText \<Rightarrow> map pageSheet pages)"

text \<open>
  Modelled from the spec: the file that the extractor, which is not among the sources,
  returns: a workbook with one sheet for each table, a single CSV, or a zip with one CSV
  for each table.
\<close>

datatype extract_file =
    Workbook "string list list list"
  | SingleCsv "string list list"
  | ZipOfCsvs "string list list list"

datatype extract_error = ExtractionError

text \<open>
  Modelled from the spec: the output formats of the extractor, which is not among the
  sources. The format \<open>excel\<close> gives a single workbook; the format \<open>csv\<close> gives a single
  CSV when exactly one table or page is produced, otherwise a zip of the CSVs.
\<close>

definition package :: "output_format \<Rightarrow> string list list list \<Rightarrow> extract_file" where
  "package fmt tables =
     (case fmt of
        excel \<Rightarrow> Workbook tables
      | csv \<Rightarrow> (case tables of [t] \<Rightarrow> SingleCsv t | _ \<Rightarrow> ZipOfCsvs tables))"

text \<open>
  Modelled from the spec: \<open>extract(pdf bytes, mode, format)\<close> of the extractor, which is
  not among the sources (the name \<open>extract\<close> is taken in Isabelle). A PDF that cannot be parsed (\<open>None\<close>) fails with
  \<open>ExtractionError\<close>; a parsed one, given by its pages, yields the packaged file, also
  when nothing is found.
\<close>

definition extractPdf ::
  "region list list option \<Rightarrow> processing_option \<Rightarrow> output_format \<Rightarrow> extract_error + extract_file" where
  "extractPdf pdf mode fmt =
     (case pdf of
        None \<Rightarrow> Inl ExtractionError
      | Some pages \<Rightarrow> Inr (package fmt (produced mode pages)))"

section \<open>The Row Batcher of the service\<close>

text \<open>
  Modelled from the spec: the Row Batcher runs in the service, whose code is not among
  the sources; the component only estimates the number of documents. The number of rows
  per document that the batcher works with: a value of 0 or less is treated as 1.
\<close>

definition effectiveRowsPerDoc :: "int \<Rightarrow> nat" where
  "effectiveRowsPerDoc rpd = (if rpd \<le> 0 then 1 else nat rpd)"

text \<open>
  Modelled from the spec: the document count of the Row Batcher, which is not among the
  sources, is the number of rows divided by the rows per document, rounded up.
\<close>

definition documentCount :: "nat \<Rightarrow> int \<Rightarrow> nat" where
  "documentCount n rpd = nat \<lceil>(of_nat n :: rat) / of_nat (effectiveRowsPerDoc rpd)\<rceil>"

text \<open>
  Modelled from the spec: the row range of group \<open>i\<close> of the Row Batcher, which is not among
  the sources, starts at \<open>i * rowsPerDoc\<close> and ends before the smaller of
  \<open>(i + 1) * rowsPerDoc\<close> and the number of rows.
\<close>

definition rowRange :: "nat \<Rightarrow> nat \<Rightarrow> int \<Rightarrow> nat \<times> nat" where
  "rowRange i n rpd =
     (i * effectiveRowsPerDoc rpd, min ((i + 1) * effectiveRowsPerDoc rpd) n)"

text \<open>
  Modelled from the spec: \<open>batch(rows, rowsPerDoc)\<close> of the Row Batcher, which is not among
  the sources, is the sequence of the groups, one for each document, each holding the
  rows of its range in their order.
\<close>

definition batch :: "'a list \<Rightarrow> int \<Rightarrow> 'a list list" where
  "batch rows rpd =
     map (\<lambda>i. case rowRange i (length rows) rpd of (lo, hi) \<Rightarrow> take (hi - lo) (drop lo rows))
       [0..<documentCount (length rows) rpd]"

section \<open>Invariants\<close>

text \<open>The extractor holds no file, or one whose name ends in \<open>.pdf\<close> up to case.\<close>

definition pdf_only :: "extractor \<Rightarrow> bool" where
  "pdf_only st = (case pdfFile st of None \<Rightarrow> True | Some f \<Rightarrow> is_pdf_name (name f))"

text \<open>
  The page has no mapping in step 1; from step 2 on the keys of \<open>mappings\<close> are distinct
  and are the placeholders of the template other than \<open>__proto__\<close>.
\<close>

definition mappings_cover :: "page \<Rightarrow> bool" where
  "mappings_cover st =
     (if p_step st = 1 then p_mappings st = []
      else distinct (map fst (p_mappings st)) \<and>
           set (map fst (p_mappings st)) = set (p_docxPlaceholders st) - {''__proto__''})"

section \<open>Lemmas on objects as lists of entries\<close>

lemma update_fresh: "k \<notin> fst ` set al \<Longrightarrow> AList.update k v al = al @ [(k, v)]"
  by (induction al) auto

lemma set_insertIndex: "set (insertIndex n k v obj) = insert (k, v) (set obj)"
  by (induction obj) (auto split: option.splits)

lemma distinct_insertIndex:
  "k \<notin> fst ` set obj \<Longrightarrow> distinct (map fst obj) \<Longrightarrow> distinct (map fst (insertIndex n k v obj))"
  by (induction obj) (auto simp: set_insertIndex split: option.splits)

lemma map_of_insertIndex:
  "k \<notin> fst ` set obj \<Longrightarrow> map_of (insertIndex n k v obj) = (map_of obj)(k \<mapsto> v)"
  by (induction obj) (auto split: option.splits)


lemma keys_objAssign:
  "fst ` set (objAssign k v obj) =
     (if k = ''__proto__'' then fst ` set obj else insert k (fst ` set obj))"
  by (auto simp: objAssign_def set_insertIndex AList.dom_update split: option.splits)

lemma distinct_objAssign:
  "distinct (map fst obj) \<Longrightarrow> distinct (map fst (objAssign k v obj))"
  by (auto simp: objAssign_def AList.distinct_update distinct_insertIndex split: option.splits)

lemma map_add_fresh:
  "k \<notin> fst ` set obj \<Longrightarrow> [k \<mapsto> v] ++ map_of obj = (map_of obj)(k \<mapsto> v)"
proof (rule ext)
  fix x
  assume "k \<notin> fst ` set obj"
  then have "map_of obj k = None"
    by (simp add: map_of_eq_None_iff)
  then show "([k \<mapsto> v] ++ map_of obj) x = ((map_of obj)(k \<mapsto> v)) x"
    by (cases "map_of obj x") (auto simp: map_add_def)
qed

lemma map_of_objAssign:
  "map_of (objAssign k v obj) =
     (if k = ''__proto__'' then map_of obj else (map_of obj)(k \<mapsto> v))"
  by (simp add: objAssign_def AList.update_conv' map_of_insertIndex map_add_fresh
      split: option.splits)

lemma keys_assign_all:
  "fst ` set (foldl (\<lambda>m ph. objAssign ph (f ph) m) m0 phs) =
     fst ` set m0 \<union> (set phs - {''__proto__''})"
  by (induction phs arbitrary: m0) (auto simp: keys_objAssign)

lemma distinct_assign_all:
  "distinct (map fst m0) \<Longrightarrow> distinct (map fst (foldl (\<lambda>m ph. objAssign ph (f ph) m) m0 phs))"
  by (induction phs arbitrary: m0) (simp_all add: distinct_objAssign)

lemma map_of_assign_all:
  "map_of (foldl (\<lambda>m ph. objAssign ph (f ph) m) m0 phs) k =
     (if k \<in> set phs \<and> k \<noteq> ''__proto__'' then Some (f k) else map_of m0 k)"
  by (induction phs arbitrary: m0) (auto simp: map_of_objAssign)


lemma clean_fold_append:
  "distinct (map fst m) \<Longrightarrow> fst ` set acc \<inter> fst ` set m = {} \<Longrightarrow>
   foldl (\<lambda>cleanMapping (key, conf). AList.update key (g conf) cleanMapping) acc m =
     acc @ map (\<lambda>(key, conf). (key, g conf)) m"
proof (induction m arbitrary: acc)
  case Nil
  then show ?case by simp
next
  case (Cons e m)
  obtain k c where e: "e = (k, c)" by (cases e)
  from Cons.prems have fresh: "k \<notin> fst ` set acc" and dm: "distinct (map fst m)"
    and km: "k \<notin> fst ` set m" and disj: "fst ` set acc \<inter> fst ` set m = {}"
    by (auto simp: e)
  have "fst ` set (acc @ [(k, g c)]) \<inter> fst ` set m = {}"
    using km disj by auto
  from Cons.IH [OF dm this] fresh show ?case
    by (simp add: e update_fresh)
qed


section \<open>Lemmas on the extractor and the page\<close>

lemma is_pdf_name_iff:
  "is_pdf_name n \<longleftrightarrow> (\<exists>p e. n = p @ e \<and> toLowerCase e = ''.pdf'')"
proof
  assume "is_pdf_name n"
  then obtain q where q: "toLowerCase n = q @ ''.pdf''"
    by (auto simp: is_pdf_name_def endsWith_def suffix_def)
  let ?k = "length n - 4"
  have len: "length n = length q + 4"
    using arg_cong [OF q, of length] by (simp add: toLowerCase_def)
  have "toLowerCase (drop ?k n) = drop ?k (toLowerCase n)"
    by (simp add: toLowerCase_def drop_map)
  also have "\<dots> = ''.pdf''"
    using len by (simp add: q)
  finally have "n = take ?k n @ drop ?k n \<and> toLowerCase (drop ?k n) = ''.pdf''"
    by simp
  then show "\<exists>p e. n = p @ e \<and> toLowerCase e = ''.pdf''"
    by blast
next
  assume "\<exists>p e. n = p @ e \<and> toLowerCase e = ''.pdf''"
  then obtain p e where "n = p @ e" "toLowerCase e = ''.pdf''"
    by blast
  then have "toLowerCase n = toLowerCase p @ ''.pdf''"
    by (simp add: toLowerCase_def)
  then show "is_pdf_name n"
    by (simp add: is_pdf_name_def endsWith_def suffix_def)
qed

lemma pdf_only_step: "pdf_only st \<Longrightarrow> pdf_only (extractor_step st ev)"
  by (cases ev)
     (auto simp: pdf_only_def processPdfSelection_def clearFile_def handleExtract_begin_def
         handleExtract_settle_def is_pdf_name_def split: option.splits sum.splits)

lemma pdf_only_foldl: "pdf_only st \<Longrightarrow> pdf_only (foldl extractor_step st evs)"
  by (induction evs arbitrary: st) (simp_all add: pdf_only_step)

lemma pdf_only_run: "pdf_only (extractor_run evs)"
  unfolding extractor_run_def
  by (rule pdf_only_foldl) (simp add: pdf_only_def extractor_init_def)

lemma autoDetect_page_keys:
  "fst ` set (p_mappings (autoDetectMappings_page st)) =
     fst ` set (p_mappings st) \<union> (set (p_docxPlaceholders st) - {''__proto__''})"
  by (simp add: autoDetectMappings_page_def keys_assign_all)

lemma autoDetect_page_distinct:
  "distinct (map fst (p_mappings st)) \<Longrightarrow>
   distinct (map fst (p_mappings (autoDetectMappings_page st)))"
  by (simp add: autoDetectMappings_page_def distinct_assign_all)

lemma autoDetect_page_fields:
  "p_step (autoDetectMappings_page st) = p_step st"
  "p_docxPlaceholders (autoDetectMappings_page st) = p_docxPlaceholders st"
  "p_errorMsg (autoDetectMappings_page st) = p_errorMsg st"
  by (simp_all add: autoDetectMappings_page_def)

lemma handleUpload_try_cases:
  assumes "handleUpload_try st upFetched metaFetch = (st', thrown)"
  shows "(thrown \<noteq> None \<and> p_step st' = p_step st \<and> p_mappings st' = p_mappings st \<and>
            p_docxPlaceholders st' = p_docxPlaceholders st) \<or>
         (thrown = None \<and> p_step st' = 2 \<and>
            (\<exists>st2. st' = (autoDetectMappings_page st2)\<lparr>p_step := 2\<rparr> \<and>
               p_mappings st2 = p_mappings st))"
  using assms
  by (auto simp: handleUpload_try_def Let_def split: await.splits if_splits)

lemma mappings_cover_upload:
  assumes "mappings_cover st" "p_step st = 1"
  shows "mappings_cover (handleUpload_page st upFetched metaFetch)"
proof (cases "csvFile st = None \<or> p_docxFile st = None")
  case True
  then show ?thesis using assms by (auto simp: handleUpload_page_def)
next
  case False
  then obtain c t where files: "csvFile st = Some c" "p_docxFile st = Some t"
    by auto
  let ?st0 = "st\<lparr>p_isUploading := True, p_errorMsg := []\<rparr>"
  obtain st' thrown where t: "handleUpload_try ?st0 upFetched metaFetch = (st', thrown)"
    by (cases "handleUpload_try ?st0 upFetched metaFetch")
  have empty: "p_mappings ?st0 = []" "p_step ?st0 = 1"
    using assms by (simp_all add: mappings_cover_def)
  from handleUpload_try_cases [OF t] show ?thesis
  proof
    assume "thrown \<noteq> None \<and> p_step st' = p_step ?st0 \<and> p_mappings st' = p_mappings ?st0 \<and>
            p_docxPlaceholders st' = p_docxPlaceholders ?st0"
    then show ?thesis
      using files t empty by (auto simp: handleUpload_page_def mappings_cover_def)
  next
    assume "thrown = None \<and> p_step st' = 2 \<and>
            (\<exists>st2. st' = (autoDetectMappings_page st2)\<lparr>p_step := 2\<rparr> \<and>
               p_mappings st2 = p_mappings ?st0)"
    then obtain st2 where st2: "thrown = None" "st' = (autoDetectMappings_page st2)\<lparr>p_step := 2\<rparr>"
      "p_mappings st2 = []"
      using empty by auto
    have "distinct (map fst (p_mappings (autoDetectMappings_page st2)))"
      by (rule autoDetect_page_distinct) (simp add: st2)
    moreover have "fst ` set (p_mappings (autoDetectMappings_page st2)) =
        set (p_docxPlaceholders (autoDetectMappings_page st2)) - {''__proto__''}"
      by (simp add: autoDetect_page_keys autoDetect_page_fields st2)
    ultimately show ?thesis
      using files t st2 by (simp add: handleUpload_page_def mappings_cover_def)
  qed
qed

lemma mappings_cover_edit: "mappings_cover st \<Longrightarrow> mappings_cover (edit_mapping ph f st)"
  by (simp add: edit_mapping_def mappings_cover_def AList.distinct_map_entry AList.dom_map_entry
      split: if_splits)

lemma mappings_cover_generate:
  "mappings_cover st \<Longrightarrow> p_step st = 2 \<Longrightarrow> mappings_cover (handleGenerate_page st fetched)"
  by (auto simp: handleGenerate_page_def handleGenerate_try_def mappings_cover_def
      split: await.splits)

lemma mappings_cover_step: "mappings_cover st \<Longrightarrow> mappings_cover (page_step st ev)"
proof (cases ev)
  case (Click_upload upFetched metaFetch)
  assume "mappings_cover st"
  then show ?thesis using Click_upload by (simp add: mappings_cover_upload)
next
  case (Click_generate fetched)
  assume "mappings_cover st"
  then show ?thesis using Click_generate by (simp add: mappings_cover_generate)
qed (auto simp: mappings_cover_edit, auto simp: mappings_cover_def)

lemma mappings_cover_foldl: "mappings_cover st \<Longrightarrow> mappings_cover (foldl page_step st evs)"
  by (induction evs arbitrary: st) (simp_all add: mappings_cover_step)

lemma mappings_cover_run: "mappings_cover (page_run evs)"
  unfolding page_run_def
  by (rule mappings_cover_foldl) (simp add: mappings_cover_def page_init_def)




lemma cleanMapping_page_map:
  "distinct (map fst m) \<Longrightarrow> cleanMapping_page m = map (\<lambda>(key, conf). (key, clean_page conf)) m"
  using clean_fold_append [of m "[]" clean_page] by (simp add: cleanMapping_page_def)

lemma cleanMapping_gen_map:
  "distinct (map fst m) \<Longrightarrow> cleanMapping_gen m = map (\<lambda>(key, conf). (key, clean_gen conf)) m"
  using clean_fold_append [of m "[]" clean_gen] by (simp add: cleanMapping_gen_def)

lemma json_get_cleanMapping:
  "json_get (cleanMapping_json cm) ph = map_option clean_entry_json (map_of cm ph)"
  by (simp add: cleanMapping_json_def map_of_map)

lemma package_single_iff: "package csv tables = SingleCsv t \<longleftrightarrow> tables = [t]"
  by (cases tables rule: remdups_adj.cases) (simp_all add: package_def)






lemma extract_csv_contract:
  "(extractPdf (Some pages) mode csv = Inr (SingleCsv t) \<longleftrightarrow> produced mode pages = [t]) \<and>
   ((\<exists>t. extractPdf (Some pages) mode csv = Inr (SingleCsv t)) \<longleftrightarrow>
      length (produced mode pages) = 1) \<and>
   (length (produced mode pages) \<noteq> 1 \<longrightarrow>
      extractPdf (Some pages) mode csv = Inr (ZipOfCsvs (produced mode pages))) \<and>
   (concat (map gridsOf pages) = [t] \<longrightarrow>
      extractPdf (Some pages) tablesOnly csv = Inr (SingleCsv t)) \<and>
   extractPdf (Some [[Grid t]]) tablesOnly csv = Inr (SingleCsv t)"
proof (intro conjI impI)
  show "extractPdf (Some pages) mode csv = Inr (SingleCsv t) \<longleftrightarrow> produced mode pages = [t]"
    by (simp add: extractPdf_def package_single_iff)
  show "(\<exists>t. extractPdf (Some pages) mode csv = Inr (SingleCsv t)) \<longleftrightarrow>
      length (produced mode pages) = 1"
    by (auto simp: extractPdf_def package_single_iff length_Suc_conv)
next
  assume "length (produced mode pages) \<noteq> 1"
  then show "extractPdf (Some pages) mode csv = Inr (ZipOfCsvs (produced mode pages))"
    by (cases "produced mode pages" rule: remdups_adj.cases)
       (simp_all add: extractPdf_def package_def)
next
  assume "concat (map gridsOf pages) = [t]"
  then show "extractPdf (Some pages) tablesOnly csv = Inr (SingleCsv t)"
    by (simp add: extractPdf_def package_def produced_def)
next
  show "extractPdf (Some [[Grid t]]) tablesOnly csv = Inr (SingleCsv t)"
    by (simp add: extractPdf_def package_def produced_def)
qed

section \<open>Lemmas on the Row Batcher\<close>

lemma effectiveRowsPerDoc_pos: "0 < effectiveRowsPerDoc rpd"
  by (simp add: effectiveRowsPerDoc_def)

lemma less_documentCount_iff:
  "i < documentCount n rpd \<longleftrightarrow> i * effectiveRowsPerDoc rpd < n"
proof -
  let ?r = "effectiveRowsPerDoc rpd"
  have pos: "(0::rat) < of_nat ?r"
    using effectiveRowsPerDoc_pos [of rpd] by simp
  have "i < documentCount n rpd \<longleftrightarrow> int i < \<lceil>(of_nat n :: rat) / of_nat ?r\<rceil>"
    by (simp add: documentCount_def zless_nat_eq_int_zless)
  also have "\<dots> \<longleftrightarrow> (of_nat i :: rat) < of_nat n / of_nat ?r"
    by (simp add: less_ceiling_iff)
  also have "\<dots> \<longleftrightarrow> (of_nat i :: rat) * of_nat ?r < of_nat n"
    using pos by (simp add: pos_less_divide_eq)
  also have "\<dots> \<longleftrightarrow> i * ?r < n"
    by (simp only: of_nat_mult [symmetric] of_nat_less_iff)
  finally show ?thesis .
qed

lemma documentCount_covers: "n \<le> documentCount n rpd * effectiveRowsPerDoc rpd"
  using less_documentCount_iff [of "documentCount n rpd" n rpd] by simp

lemma group_take:
  "(case rowRange i (length rows) rpd of (lo, hi) \<Rightarrow> take (hi - lo) (drop lo rows)) =
     take (effectiveRowsPerDoc rpd) (drop (i * effectiveRowsPerDoc rpd) rows)"
  by (simp add: rowRange_def min_def)

lemma concat_groups:
  "concat (map (\<lambda>i. take r (drop (i * r) rows)) [0..<k]) = take (k * r) rows"
proof (induction k)
  case 0
  show ?case by simp
next
  case (Suc k)
  have "concat (map (\<lambda>i. take r (drop (i * r) rows)) [0..<Suc k]) =
      take (k * r) rows @ take r (drop (k * r) rows)"
    by (simp add: Suc.IH)
  also have "\<dots> = take (k * r + r) rows"
    by (simp add: take_add)
  also have "k * r + r = Suc k * r"
    by simp
  finally show ?case .
qed

lemma concat_batch: "concat (batch rows rpd) = rows"
  using documentCount_covers [of "length rows" rpd]
  by (simp add: batch_def group_take concat_groups)

lemma take_drop_nth:
  "lo + m \<le> length xs \<Longrightarrow> take m (drop lo xs) = map (\<lambda>j. xs ! j) [lo..<lo + m]"
  by (rule nth_equalityI) (simp_all add: add.commute)

lemma group_rows:
  assumes "i < documentCount (length rows) rpd"
  shows "batch rows rpd ! i =
     map (\<lambda>j. rows ! j) [fst (rowRange i (length rows) rpd) ..< snd (rowRange i (length rows) rpd)]"
proof -
  let ?r = "effectiveRowsPerDoc rpd"
  let ?lo = "i * ?r"
  let ?hi = "min ((i + 1) * ?r) (length rows)"
  from assms have lt: "?lo < length rows"
    by (simp add: less_documentCount_iff)
  then have le: "?lo \<le> ?hi"
    by simp
  have "batch rows rpd ! i = take (?hi - ?lo) (drop ?lo rows)"
    using assms by (simp add: batch_def rowRange_def)
  also have "\<dots> = map (\<lambda>j. rows ! j) [?lo..<?lo + (?hi - ?lo)]"
    by (rule take_drop_nth) (use le in simp)
  also have "?lo + (?hi - ?lo) = ?hi"
    using le by simp
  finally show ?thesis
    by (simp add: rowRange_def)
qed

lemma ranges_partition:
  "concat (map (\<lambda>i. [fst (rowRange i n rpd) ..< snd (rowRange i n rpd)]) [0..<documentCount n rpd]) =
     [0..<n]"
proof -
  have "concat (batch [0..<n] rpd) = [0..<n]"
    by (rule concat_batch)
  moreover have "batch [0..<n] rpd =
      map (\<lambda>i. [fst (rowRange i n rpd) ..< snd (rowRange i n rpd)]) [0..<documentCount n rpd]"
  proof (rule nth_equalityI)
    show "length (batch [0..<n] rpd) =
        length (map (\<lambda>i. [fst (rowRange i n rpd) ..< snd (rowRange i n rpd)])
                  [0..<documentCount n rpd])"
      by (simp add: batch_def)
  next
    fix i
    assume "i < length (batch [0..<n] rpd)"
    then have i: "i < documentCount n rpd"
      by (simp add: batch_def)
    then have "i * effectiveRowsPerDoc rpd < n"
      by (simp add: less_documentCount_iff)
    then have "snd (rowRange i n rpd) \<le> n" "fst (rowRange i n rpd) \<le> snd (rowRange i n rpd)"
      by (simp_all add: rowRange_def)
    then have "map (\<lambda>j. [0..<n] ! j) [fst (rowRange i n rpd) ..< snd (rowRange i n rpd)] =
        [fst (rowRange i n rpd) ..< snd (rowRange i n rpd)]"
      by (intro nth_equalityI) simp_all
    with group_rows [of i "[0..<n]" rpd] i
    show "batch [0..<n] rpd ! i =
        map (\<lambda>i. [fst (rowRange i n rpd) ..< snd (rowRange i n rpd)]) [0..<documentCount n rpd] ! i"
      by simp
  qed
  ultimately show ?thesis by simp
qed

lemma estimatedDocs_documentCount:
  "0 \<le> g_totalRows g \<Longrightarrow>
   estimatedDocs g = int (documentCount (nat (g_totalRows g)) (rowsPerDoc g))"
proof -
  assume nonneg: "0 \<le> g_totalRows g"
  then have total: "(of_nat (nat (g_totalRows g)) :: rat) = of_int (g_totalRows g)"
    by simp
  show ?thesis
  proof (cases "0 < rowsPerDoc g")
    case True
    then have "(of_nat (effectiveRowsPerDoc (rowsPerDoc g)) :: rat) = of_int (rowsPerDoc g)"
      by (simp add: effectiveRowsPerDoc_def)
    moreover have "(0::rat) \<le> of_int (g_totalRows g) / of_int (rowsPerDoc g)"
      using nonneg True by simp
    then have "(- 1 :: rat) < of_int (g_totalRows g) / of_int (rowsPerDoc g)"
      by linarith
    then have "0 \<le> \<lceil>(of_int (g_totalRows g) :: rat) / of_int (rowsPerDoc g)\<rceil>"
      by (simp add: zero_le_ceiling)
    ultimately show ?thesis
      using True by (simp add: estimatedDocs_def documentCount_def total)
  next
    case False
    then show ?thesis
      using nonneg by (simp add: estimatedDocs_def documentCount_def effectiveRowsPerDoc_def)
  qed
qed

section \<open>The claims\<close>

text \<open>
  C1, as stated, at the request of the page. A data set with the column \<open>Name\<close> and a
  template with the placeholder \<open>#NAME\<close> are uploaded and the generate button is clicked:
  the body of the request has the four members \<open>session_id\<close>, \<open>mapping\<close>,
  \<open>generate_docx\<close> and \<open>generate_pdf\<close>, and none of \<open>remove_empty_pages\<close>,
  \<open>merge_output\<close>, \<open>rows_per_doc\<close> and \<open>doc_settings\<close>.
\<close>

theorem generate_request_fields_counterexample:
  "page_request
     (page_run [Pick_csv (Some \<lparr>name = ''rows.csv'', content = []\<rparr>),
        Pick_docx (Some \<lparr>name = ''letter.docx'', content = []\<rparr>),
        Click_upload
          (Resolves \<lparr>ok = True,
             json = Resolves \<lparr>session_id = ''s1'', csv_headers = [], docx_placeholders = [],
                      total_rows = 0, detail = None\<rparr>,
             blob = Rejects []\<rparr>)
          (\<lambda>sid. Resolves \<lparr>ok = True,
             json = Resolves \<lparr>session_id = ''s1'', csv_headers = [''Name''],
                      docx_placeholders = [''#NAME''], total_rows = 2, detail = None\<rparr>,
             blob = Rejects []\<rparr>)])
     (Click_generate (Rejects [])) =
   Some (JObj [(''session_id'', JStr ''s1''),
               (''mapping'',
                JObj [(''#NAME'',
                       JObj [(''type'', JStr ''csv_column''), (''value'', JStr ''Name''),
                             (''prefix'', JStr []), (''suffix'', JStr [])])]),
               (''generate_docx'', JBool True),
               (''generate_pdf'', JBool True)])"
  by code_simp

text \<open>
  C1, amended. Every generate request carries the session identifier as \<open>session_id\<close>,
  the cleaned mapping (for each placeholder its \<open>type\<close>, \<open>value\<close>, \<open>prefix\<close> and
  \<open>suffix\<close>) as \<open>mapping\<close>, and the two format options as \<open>generate_docx\<close> and
  \<open>generate_pdf\<close>. The request of the Generator component carries, after these, its
  options \<open>remove_empty_pages\<close> and \<open>merge_output\<close>, the number \<open>rows_per_doc\<close>, and an
  object \<open>doc_settings\<close>: \<open>page_size\<close>; \<open>page_width\<close> and \<open>page_height\<close>, which are the
  custom width and height when the page size is \<open>custom\<close> and null otherwise;
  \<open>font_name\<close>, null when the name is empty; \<open>font_size\<close>, null when the size is 0.
  The request of the page carries the first four members only, and the page sends it
  when the enabled generate button of step 2 is clicked. In the page and in the
  component, the blob of an ok response is what is offered for download.
\<close>

theorem generate_request_fields:
  "generate_body_page st =
     JObj [(''session_id'', JStr (p_sessionId st)),
           (''mapping'', cleanMapping_json (cleanMapping_page (p_mappings st))),
           (''generate_docx'', JBool (p_docx (p_options st))),
           (''generate_pdf'', JBool (p_pdf (p_options st)))] \<and>
   generate_body_gen g =
     JObj [(''session_id'', JStr (g_sessionId g)),
           (''mapping'', cleanMapping_json (cleanMapping_gen (g_mappings g))),
           (''generate_docx'', JBool (g_docx (g_options g))),
           (''generate_pdf'', JBool (g_pdf (g_options g))),
           (''remove_empty_pages'', JBool (removeEmptyPages (g_options g))),
           (''merge_output'', JBool (mergeOutput (g_options g))),
           (''rows_per_doc'', JNum (of_int (rowsPerDoc g))),
           (''doc_settings'',
            JObj [(''page_size'', JStr (pageSize (docSettings g))),
                  (''page_width'',
                   if pageSize (docSettings g) = ''custom''
                   then JNum (customWidth (docSettings g)) else JNull),
                  (''page_height'',
                   if pageSize (docSettings g) = ''custom''
                   then JNum (customHeight (docSettings g)) else JNull),
                  (''font_name'',
                   if fontName (docSettings g) = [] then JNull
                   else JStr (fontName (docSettings g))),
                  (''font_size'',
                   if fontSize (docSettings g) = 0 then JNull
                   else JNum (fontSize (docSettings g)))])] \<and>
   (distinct (map fst m) \<longrightarrow>
      cleanMapping_json (cleanMapping_page m) =
        JObj (map (\<lambda>(ph, conf).
                (ph, JObj [(''type'', JStr (MappingType_page_str (p_type conf))),
                           (''value'', JStr (if p_type conf = P_custom_text
                                             then p_customText conf else p_value conf)),
                           (''prefix'', JStr (p_prefix conf)),
                           (''suffix'', JStr (p_suffix conf))])) m)) \<and>
   (distinct (map fst gm) \<longrightarrow>
      cleanMapping_json (cleanMapping_gen gm) =
        JObj (map (\<lambda>(ph, conf).
                (ph, JObj [(''type'', JStr (MappingType_gen_str (g_type conf))),
                           (''value'', JStr (if g_type conf = G_custom_text
                                             then g_customText conf else g_value conf)),
                           (''prefix'', JStr (g_prefix conf)),
                           (''suffix'', JStr (g_suffix conf))])) gm)) \<and>
   page_request st (Click_generate fetched) =
     (if p_step st = 2 \<and> \<not> generate_disabled_page st then Some (generate_body_page st) else None) \<and>
   handleGenerate_gen_request g False = Some (generate_body_gen g) \<and>
   p_downloadUrl (handleGenerate_page st (Resolves (r\<lparr>ok := True, blob := Resolves url\<rparr>))) = url \<and>
   g_downloadUrl (handleGenerate_gen g False events (Resolves (r\<lparr>ok := True, blob := Resolves url\<rparr>))) =
     url"
proof (intro conjI impI)
  assume "distinct (map fst m)"
  then show "cleanMapping_json (cleanMapping_page m) =
        JObj (map (\<lambda>(ph, conf).
                (ph, JObj [(''type'', JStr (MappingType_page_str (p_type conf))),
                           (''value'', JStr (if p_type conf = P_custom_text
                                             then p_customText conf else p_value conf)),
                           (''prefix'', JStr (p_prefix conf)),
                           (''suffix'', JStr (p_suffix conf))])) m)"
    by (simp add: cleanMapping_page_map cleanMapping_json_def clean_entry_json_def clean_page_def
        case_prod_beta cong: if_cong)
next
  assume "distinct (map fst gm)"
  then show "cleanMapping_json (cleanMapping_gen gm) =
        JObj (map (\<lambda>(ph, conf).
                (ph, JObj [(''type'', JStr (MappingType_gen_str (g_type conf))),
                           (''value'', JStr (if g_type conf = G_custom_text
                                             then g_customText conf else g_value conf)),
                           (''prefix'', JStr (g_prefix conf)),
                           (''suffix'', JStr (g_suffix conf))])) gm)"
    by (simp add: cleanMapping_gen_map cleanMapping_json_def clean_entry_json_def clean_gen_def
        case_prod_beta cong: if_cong)
qed (simp_all add: generate_body_page_def generate_body_gen_def doc_settings_json_def
      str_or_null_def num_or_null_def handleGenerate_gen_request_def
      handleGenerate_page_def handleGenerate_try_def
      handleGenerate_gen_def handleGenerate_gen_try_def Let_def)

theorem generate_request_fields_witness:
  "cleanMapping_json
     (cleanMapping_page
        [(''#NAME'', \<lparr>p_type = P_csv_column, p_value = ''Name'', p_customText = [],
                      p_prefix = [], p_suffix = []\<rparr>)]) =
     JObj [(''#NAME'',
            JObj [(''type'', JStr ''csv_column''), (''value'', JStr ''Name''),
                  (''prefix'', JStr []), (''suffix'', JStr [])])] \<and>
   cleanMapping_json
     (cleanMapping_gen
        [(''#GREETING'', \<lparr>g_type = G_custom_text, g_value = [], g_customText = ''Hello'',
                          g_prefix = [], g_suffix = [], g_fallback = None, g_modifier = None,
                          g_fromMemory = None\<rparr>)]) =
     JObj [(''#GREETING'',
            JObj [(''type'', JStr ''custom_text''), (''value'', JStr ''Hello''),
                  (''prefix'', JStr []), (''suffix'', JStr [])])]"
proof -
  let ?c = "\<lparr>p_type = P_csv_column, p_value = ''Name'', p_customText = [],
                      p_prefix = [], p_suffix = []\<rparr>"
  let ?gc = "\<lparr>g_type = G_custom_text, g_value = [], g_customText = ''Hello'',
                          g_prefix = [], g_suffix = [], g_fallback = None, g_modifier = None,
                          g_fromMemory = None\<rparr>"
  have hyp: "distinct (map fst [(''#NAME'', ?c)])" "distinct (map fst [(''#GREETING'', ?gc)])"
    by simp_all
  note T = generate_request_fields [where m = "[(''#NAME'', ?c)]" and gm = "[(''#GREETING'', ?gc)]"]
  have A: "cleanMapping_json (cleanMapping_page [(''#NAME'', ?c)]) =
      JObj (map (\<lambda>(ph, conf).
                (ph, JObj [(''type'', JStr (MappingType_page_str (p_type conf))),
                           (''value'', JStr (if p_type conf = P_custom_text
                                             then p_customText conf else p_value conf)),
                           (''prefix'', JStr (p_prefix conf)),
                           (''suffix'', JStr (p_suffix conf))])) [(''#NAME'', ?c)])"
    using T [THEN conjunct2, THEN conjunct2, THEN conjunct1, rule_format, OF hyp(1)] .
  have B: "cleanMapping_json (cleanMapping_gen [(''#GREETING'', ?gc)]) =
      JObj (map (\<lambda>(ph, conf).
                (ph, JObj [(''type'', JStr (MappingType_gen_str (g_type conf))),
                           (''value'', JStr (if g_type conf = G_custom_text
                                             then g_customText conf else g_value conf)),
                           (''prefix'', JStr (g_prefix conf)),
                           (''suffix'', JStr (g_suffix conf))])) [(''#GREETING'', ?gc)])"
    using T [THEN conjunct2, THEN conjunct2, THEN conjunct2, THEN conjunct1, rule_format,
        OF hyp(2)] .
  from A B show ?thesis
    by simp
qed

text \<open>
  C2, as stated, at a session whose template has no placeholder: the upload succeeds and
  the page reaches the mapping step, where it shows no warning and its generate button
  is disabled.
\<close>

theorem zero_placeholders_counterexample:
  "p_step
     (page_run [Pick_csv (Some \<lparr>name = ''rows.csv'', content = []\<rparr>),
        Pick_docx (Some \<lparr>name = ''letter.docx'', content = []\<rparr>),
        Click_upload
          (Resolves \<lparr>ok = True,
             json = Resolves \<lparr>session_id = ''s1'', csv_headers = [], docx_placeholders = [],
                      total_rows = 0, detail = None\<rparr>,
             blob = Rejects []\<rparr>)
          (\<lambda>sid. Resolves \<lparr>ok = True,
             json = Resolves \<lparr>session_id = ''s1'', csv_headers = [''Name''],
                      docx_placeholders = [], total_rows = 2, detail = None\<rparr>,
             blob = Rejects []\<rparr>)]) = 2 \<and>
   p_errorMsg
     (page_run [Pick_csv (Some \<lparr>name = ''rows.csv'', content = []\<rparr>),
        Pick_docx (Some \<lparr>name = ''letter.docx'', content = []\<rparr>),
        Click_upload
          (Resolves \<lparr>ok = True,
             json = Resolves \<lparr>session_id = ''s1'', csv_headers = [], docx_placeholders = [],
                      total_rows = 0, detail = None\<rparr>,
             blob = Rejects []\<rparr>)
          (\<lambda>sid. Resolves \<lparr>ok = True,
             json = Resolves \<lparr>session_id = ''s1'', csv_headers = [''Name''],
                      docx_placeholders = [], total_rows = 2, detail = None\<rparr>,
             blob = Rejects []\<rparr>)]) = [] \<and>
   generate_disabled_page
     (page_run [Pick_csv (Some \<lparr>name = ''rows.csv'', content = []\<rparr>),
        Pick_docx (Some \<lparr>name = ''letter.docx'', content = []\<rparr>),
        Click_upload
          (Resolves \<lparr>ok = True,
             json = Resolves \<lparr>session_id = ''s1'', csv_headers = [], docx_placeholders = [],
                      total_rows = 0, detail = None\<rparr>,
             blob = Rejects []\<rparr>)
          (\<lambda>sid. Resolves \<lparr>ok = True,
             json = Resolves \<lparr>session_id = ''s1'', csv_headers = [''Name''],
                      docx_placeholders = [], total_rows = 2, detail = None\<rparr>,
             blob = Rejects []\<rparr>)])"
  by (simp add: page_run_def page_init_def upload_disabled_page_def handleUpload_page_def
      handleUpload_try_def autoDetectMappings_page_def generate_disabled_page_def)

text \<open>
  C2, amended. A template with no placeholder does not fail the upload: the page goes to
  the mapping step with an empty mapping record and no error text. The page has no
  mapping before that step. The generate button of the page and that of the Generator
  component are disabled while the mapping record is empty, and a click on the disabled
  button of the page changes nothing: generation is not started with zero mappings.
\<close>

theorem generate_needs_mappings:
  "(p_mappings st = [] \<and> ok upRes \<and> json upRes = Resolves upData \<and>
    metaFetch (session_id upData) = Resolves metaRes \<and> ok metaRes \<and>
    json metaRes = Resolves metaData \<and> docx_placeholders metaData = [] \<longrightarrow>
      p_step (handleUpload_page (st\<lparr>csvFile := Some c, p_docxFile := Some t\<rparr>)
                (Resolves upRes) metaFetch) = 2 \<and>
      p_errorMsg (handleUpload_page (st\<lparr>csvFile := Some c, p_docxFile := Some t\<rparr>)
                (Resolves upRes) metaFetch) = [] \<and>
      p_mappings (handleUpload_page (st\<lparr>csvFile := Some c, p_docxFile := Some t\<rparr>)
                (Resolves upRes) metaFetch) = [] \<and>
      generate_disabled_page (handleUpload_page (st\<lparr>csvFile := Some c, p_docxFile := Some t\<rparr>)
                (Resolves upRes) metaFetch)) \<and>
   (p_step (page_run evs) = 1 \<longrightarrow> p_mappings (page_run evs) = []) \<and>
   (p_mappings st = [] \<longrightarrow>
      generate_disabled_page st \<and> page_step st (Click_generate fetched) = st) \<and>
   (g_mappings g = [] \<longrightarrow> generate_disabled_gen g)"
proof -
  have "p_step (page_run evs) = 1 \<longrightarrow> p_mappings (page_run evs) = []"
    using mappings_cover_run [of evs] by (simp add: mappings_cover_def)
  then show ?thesis
    by (simp add: handleUpload_page_def handleUpload_try_def autoDetectMappings_page_def
        generate_disabled_page_def generate_disabled_gen_def)
qed

theorem generate_needs_mappings_witness:
  "p_step (handleUpload_page
       (page_init\<lparr>csvFile := Some \<lparr>name = ''rows.csv'', content = []\<rparr>,
          p_docxFile := Some \<lparr>name = ''letter.docx'', content = []\<rparr>\<rparr>)
       (Resolves \<lparr>ok = True,
          json = Resolves \<lparr>session_id = ''s1'', csv_headers = [], docx_placeholders = [],
                   total_rows = 0, detail = None\<rparr>,
          blob = Rejects []\<rparr>)
       (\<lambda>sid. Resolves \<lparr>ok = True,
          json = Resolves \<lparr>session_id = ''s1'', csv_headers = [''Name''],
                   docx_placeholders = [], total_rows = 2, detail = None\<rparr>,
          blob = Rejects []\<rparr>)) = 2 \<and>
   p_mappings (page_run []) = [] \<and>
   page_step page_init (Click_generate (Rejects ''Failed to fetch'')) = page_init \<and>
   generate_disabled_gen generator_init"
proof -
  let ?up = "\<lparr>ok = True,
          json = Resolves \<lparr>session_id = ''s1'', csv_headers = [], docx_placeholders = [],
                   total_rows = 0, detail = None\<rparr>,
          blob = Rejects []\<rparr>"
  let ?upData = "\<lparr>session_id = ''s1'', csv_headers = [], docx_placeholders = [],
                   total_rows = 0, detail = None\<rparr>"
  let ?metaData = "\<lparr>session_id = ''s1'', csv_headers = [''Name''],
                   docx_placeholders = [], total_rows = 2, detail = None\<rparr>"
  let ?meta = "\<lparr>ok = True, json = Resolves ?metaData, blob = Rejects []\<rparr>"
  have hyp: "p_mappings page_init = [] \<and> ok ?up \<and> json ?up = Resolves ?upData \<and>
      (\<lambda>sid. Resolves ?meta) (session_id ?upData) = Resolves ?meta \<and> ok ?meta \<and>
      json ?meta = Resolves ?metaData \<and> docx_placeholders ?metaData = []"
    by (simp add: page_init_def)
  have init: "p_mappings page_init = []" "g_mappings generator_init = []"
    "p_step (page_run []) = 1"
    by (simp_all add: page_init_def generator_init_def page_run_def)
  note T = generate_needs_mappings [where st = page_init and upRes = ?up and upData = ?upData
      and metaFetch = "\<lambda>sid. Resolves ?meta" and metaRes = ?meta and metaData = ?metaData
      and c = "\<lparr>name = ''rows.csv'', content = []\<rparr>"
      and t = "\<lparr>name = ''letter.docx'', content = []\<rparr>"
      and evs = "[]" and fetched = "Rejects ''Failed to fetch''" and g = generator_init]
  have A: "p_step (handleUpload_page
       (page_init\<lparr>csvFile := Some \<lparr>name = ''rows.csv'', content = []\<rparr>,
          p_docxFile := Some \<lparr>name = ''letter.docx'', content = []\<rparr>\<rparr>)
       (Resolves ?up) (\<lambda>sid. Resolves ?meta)) = 2"
    using T [THEN conjunct1, rule_format, OF hyp] by (rule conjunct1)
  have B: "p_mappings (page_run []) = []"
    using T [THEN conjunct2, THEN conjunct1, rule_format, OF init(3)] .
  have C: "page_step page_init (Click_generate (Rejects ''Failed to fetch'')) = page_init"
    using T [THEN conjunct2, THEN conjunct2, THEN conjunct1, rule_format, OF init(1)]
    by (rule conjunct2)
  have D: "generate_disabled_gen generator_init"
    using T [THEN conjunct2, THEN conjunct2, THEN conjunct2, rule_format, OF init(2)] .
  from A B C D show ?thesis by (intro conjI)
qed


text \<open>
  C4, as stated, at a failing upload: the service answers with a response that is not ok
  and reports \<open>Template is not a Word document\<close>; the page shows another text.
\<close>

theorem upload_failure_message_counterexample:
  "p_errorMsg
     (handleUpload_page
        (page_init\<lparr>csvFile := Some \<lparr>name = ''rows.csv'', content = []\<rparr>,
           p_docxFile := Some \<lparr>name = ''letter.docx'', content = []\<rparr>\<rparr>)
        (Resolves \<lparr>ok = False,
           json = Resolves \<lparr>session_id = [], csv_headers = [], docx_placeholders = [],
                    total_rows = 0, detail = Some ''Template is not a Word document''\<rparr>,
           blob = Rejects []\<rparr>)
        (\<lambda>sid. Rejects []))
   \<noteq> ''Template is not a Word document''"
  by (simp add: handleUpload_page_def handleUpload_try_def page_init_def)

text \<open>
  C4, amended. A failing upload or metadata call aborts \<open>handleUpload\<close>: the page stays
  in its step with its mappings, and shows an error text. When \<open>fetch\<close> rejects, the
  text is the message of the rejection. When the response is not ok, the text is fixed
  by the call that failed, \<open>Upload failed\<close>, \<open>Metadata extraction failed\<close> or
  \<open>Generation failed\<close>, whatever the service reported. Only the extract call shows the
  \<open>detail\<close> that the service reported, when it is not empty, and \<open>Extraction failed\<close>
  when there is none.
\<close>

theorem failure_messages:
  "handleUpload_page (st\<lparr>csvFile := Some c, p_docxFile := Some t\<rparr>) (Rejects m) metaFetch =
     st\<lparr>csvFile := Some c, p_docxFile := Some t, p_errorMsg := m, p_isUploading := False\<rparr> \<and>
   handleUpload_page (st\<lparr>csvFile := Some c, p_docxFile := Some t\<rparr>)
       (Resolves (r\<lparr>ok := False\<rparr>)) metaFetch =
     st\<lparr>csvFile := Some c, p_docxFile := Some t, p_errorMsg := ''Upload failed'',
        p_isUploading := False\<rparr> \<and>
   handleUpload_page (st\<lparr>csvFile := Some c, p_docxFile := Some t\<rparr>)
       (Resolves (r\<lparr>ok := True, json := Resolves upData\<rparr>))
       (\<lambda>sid. Resolves (r'\<lparr>ok := False\<rparr>)) =
     st\<lparr>csvFile := Some c, p_docxFile := Some t, p_sessionId := session_id upData,
        p_errorMsg := ''Metadata extraction failed'', p_isUploading := False\<rparr> \<and>
   handleUpload_page (st\<lparr>csvFile := Some c, p_docxFile := Some t\<rparr>)
       (Resolves (r\<lparr>ok := True, json := Resolves upData\<rparr>))
       (\<lambda>sid. Rejects m) =
     st\<lparr>csvFile := Some c, p_docxFile := Some t, p_sessionId := session_id upData,
        p_errorMsg := m, p_isUploading := False\<rparr> \<and>
   handleGenerate_page st (Resolves (r\<lparr>ok := False\<rparr>)) =
     st\<lparr>p_errorMsg := ''Generation failed'', p_isGenerating := False\<rparr> \<and>
   fst (handleExtract (x\<lparr>pdfFile := Some f\<rparr>)
          (Resolves (r\<lparr>ok := False, json := Resolves (b\<lparr>detail := Some (d # ds)\<rparr>)\<rparr>)) now) =
     x\<lparr>pdfFile := Some f, x_errorMsg := d # ds, x_isUploading := False\<rparr> \<and>
   fst (handleExtract (x\<lparr>pdfFile := Some f\<rparr>)
          (Resolves (r\<lparr>ok := False, json := Resolves (b\<lparr>detail := None\<rparr>)\<rparr>)) now) =
     x\<lparr>pdfFile := Some f, x_errorMsg := ''Extraction failed'', x_isUploading := False\<rparr> \<and>
   fst (handleExtract (x\<lparr>pdfFile := Some f\<rparr>)
          (Resolves (r\<lparr>ok := False, json := Resolves (b\<lparr>detail := Some []\<rparr>)\<rparr>)) now) =
     x\<lparr>pdfFile := Some f, x_errorMsg := ''Extraction failed'', x_isUploading := False\<rparr>"
  by (simp add: handleUpload_page_def handleUpload_try_def handleGenerate_page_def
      handleGenerate_try_def handleExtract_def handleExtract_begin_def handleExtract_settle_def
      handleExtract_try_def)




text \<open>
  C6, as stated, at a placeholder bound to the column \<open>Name\<close>: the page tags the entry
  \<open>csv_column\<close>, not \<open>data_column\<close>, and the entry that either component sends has the
  members \<open>type\<close>, \<open>value\<close>, \<open>prefix\<close> and \<open>suffix\<close> only, also when the
  configuration of the Generator component holds a modifier and a fallback.
\<close>

theorem column_entry_counterexample:
  "clean_entry_json
     (clean_page \<lparr>p_type = P_csv_column, p_value = ''Name'', p_customText = [], p_prefix = [],
        p_suffix = []\<rparr>) =
     JObj [(''type'', JStr ''csv_column''), (''value'', JStr ''Name''), (''prefix'', JStr []),
           (''suffix'', JStr [])] \<and>
   clean_entry_json
     (clean_gen \<lparr>g_type = G_data_column, g_value = ''Name'', g_customText = [], g_prefix = [],
        g_suffix = [], g_fallback = Some ''N/A'', g_modifier = Some ''uppercase'',
        g_fromMemory = None\<rparr>) =
     JObj [(''type'', JStr ''data_column''), (''value'', JStr ''Name''), (''prefix'', JStr []),
           (''suffix'', JStr [])]"
  by (simp add: clean_entry_json_def clean_page_def clean_gen_def)

text \<open>
  C6, amended. An entry that binds a placeholder solely to a column is tagged
  \<open>csv_column\<close> by the page and \<open>data_column\<close> by the Generator component. The entry
  sent for it in the member \<open>mapping\<close> of the generate request carries the tag as
  \<open>type\<close>, the column name as \<open>value\<close>, and \<open>prefix\<close> and \<open>suffix\<close>.
\<close>

theorem column_entry_payload:
  "(distinct (map fst m) \<and> map_of m ph = Some conf \<and> p_type conf = P_csv_column \<longrightarrow>
      json_get (cleanMapping_json (cleanMapping_page m)) ph =
        Some (JObj [(''type'', JStr ''csv_column''), (''value'', JStr (p_value conf)),
                    (''prefix'', JStr (p_prefix conf)), (''suffix'', JStr (p_suffix conf))])) \<and>
   (distinct (map fst gm) \<and> map_of gm ph = Some gconf \<and> g_type gconf = G_data_column \<longrightarrow>
      json_get (cleanMapping_json (cleanMapping_gen gm)) ph =
        Some (JObj [(''type'', JStr ''data_column''), (''value'', JStr (g_value gconf)),
                    (''prefix'', JStr (g_prefix gconf)), (''suffix'', JStr (g_suffix gconf))])) \<and>
   json_get (generate_body_page st) ''mapping'' =
     Some (cleanMapping_json (cleanMapping_page (p_mappings st))) \<and>
   json_get (generate_body_gen g) ''mapping'' =
     Some (cleanMapping_json (cleanMapping_gen (g_mappings g)))"
  by (simp add: json_get_cleanMapping cleanMapping_page_map cleanMapping_gen_map map_of_map
      clean_entry_json_def clean_page_def clean_gen_def generate_body_page_def
      generate_body_gen_def)

theorem column_entry_payload_witness:
  "json_get
     (cleanMapping_json
        (cleanMapping_page
           [(''#NAME'', \<lparr>p_type = P_csv_column, p_value = ''Name'', p_customText = [],
                         p_prefix = [], p_suffix = []\<rparr>)])) ''#NAME'' =
     Some (JObj [(''type'', JStr ''csv_column''), (''value'', JStr ''Name''),
                 (''prefix'', JStr []), (''suffix'', JStr [])]) \<and>
   json_get
     (cleanMapping_json
        (cleanMapping_gen
           [(''#NAME'', \<lparr>g_type = G_data_column, g_value = ''Name'', g_customText = [],
                         g_prefix = [], g_suffix = [], g_fallback = Some ''N/A'',
                         g_modifier = Some ''uppercase'', g_fromMemory = None\<rparr>)])) ''#NAME'' =
     Some (JObj [(''type'', JStr ''data_column''), (''value'', JStr ''Name''),
                 (''prefix'', JStr []), (''suffix'', JStr [])])"
proof -
  let ?c = "\<lparr>p_type = P_csv_column, p_value = ''Name'', p_customText = [],
                         p_prefix = [], p_suffix = []\<rparr>"
  let ?gc = "\<lparr>g_type = G_data_column, g_value = ''Name'', g_customText = [],
                         g_prefix = [], g_suffix = [], g_fallback = Some ''N/A'',
                         g_modifier = Some ''uppercase'', g_fromMemory = None\<rparr>"
  have hyp: "distinct (map fst [(''#NAME'', ?c)]) \<and> map_of [(''#NAME'', ?c)] ''#NAME'' = Some ?c \<and>
      p_type ?c = P_csv_column"
    "distinct (map fst [(''#NAME'', ?gc)]) \<and> map_of [(''#NAME'', ?gc)] ''#NAME'' = Some ?gc \<and>
      g_type ?gc = G_data_column"
    by simp_all
  from column_entry_payload [where m = "[(''#NAME'', ?c)]" and ph = "''#NAME''" and conf = ?c
      and gm = "[(''#NAME'', ?gc)]" and gconf = ?gc] hyp
  show ?thesis by simp
qed

text \<open>
  C7. \<open>resolve\<close> is a function of the placeholder, the configuration and the row: equal
  inputs give equal outputs. For a configuration of the type \<open>custom_text\<close> the resolved
  value is exactly the configured \<open>customText\<close>, for every row and whatever the prefix,
  the suffix, the modifier and the fallback are. The entry that the page and the
  Generator component send for a static text carries the tag \<open>custom_text\<close> and the
  configured text as its \<open>value\<close>.
\<close>

theorem custom_text_resolve:
  "resolve ph (config\<lparr>r_type := custom_text\<rparr>) row = r_customText config \<and>
   resolve ph (config\<lparr>r_type := custom_text, r_prefix := p, r_suffix := s, r_modifier := m,
                 r_fallback := fb\<rparr>) row' =
     resolve ph (config\<lparr>r_type := custom_text\<rparr>) row \<and>
   (ph = ph' \<and> config = config' \<and> row = row' \<longrightarrow>
      resolve ph config row = resolve ph' config' row') \<and>
   clean_page (pconf\<lparr>p_type := P_custom_text\<rparr>) =
     \<lparr>c_type = ''custom_text'', c_value = p_customText pconf, c_prefix = p_prefix pconf,
      c_suffix = p_suffix pconf\<rparr> \<and>
   clean_gen (gconf\<lparr>g_type := G_custom_text\<rparr>) =
     \<lparr>c_type = ''custom_text'', c_value = g_customText gconf, c_prefix = g_prefix gconf,
      c_suffix = g_suffix gconf\<rparr>"
  by (simp add: resolve_def baseValue_def clean_page_def clean_gen_def)

theorem custom_text_resolve_witness:
  "resolve ''#GREETING''
     \<lparr>r_type = custom_text, r_value = ''Name'', r_customText = ''Hello'', r_prefix = ''ID: '',
      r_suffix = ''!'', r_modifier = uppercase, r_fallback = Some ''N/A''\<rparr>
     [''Name'' \<mapsto> ''Alice''] = ''Hello''"
proof -
  let ?c = "\<lparr>r_type = custom_text, r_value = ''Name'', r_customText = ''Hello'', r_prefix = ''ID: '',
      r_suffix = ''!'', r_modifier = uppercase, r_fallback = Some ''N/A''\<rparr>"
  note T = custom_text_resolve [where ph = "''#GREETING''" and ph' = "''#GREETING''"
      and config = ?c and config' = ?c and row = "[''Name'' \<mapsto> ''Alice'']"
      and row' = "[''Name'' \<mapsto> ''Alice'']"]
  have "resolve ''#GREETING'' ?c [''Name'' \<mapsto> ''Alice''] =
      resolve ''#GREETING'' ?c [''Name'' \<mapsto> ''Alice'']"
    using T [THEN conjunct2, THEN conjunct2, THEN conjunct1, rule_format] by simp
  moreover have "resolve ''#GREETING'' (?c\<lparr>r_type := custom_text\<rparr>) [''Name'' \<mapsto> ''Alice''] =
      r_customText ?c"
    using T [THEN conjunct1] .
  ultimately show ?thesis
    by simp
qed

text \<open>
  C8. For \<open>rowsPerDoc\<close> of 1 or more the batcher makes as many groups as the number of
  rows divided by \<open>rowsPerDoc\<close>, rounded up, and group \<open>i\<close> holds the rows from
  \<open>i * rowsPerDoc\<close> up to, not including, the smaller of \<open>(i + 1) * rowsPerDoc\<close> and the
  number of rows. A \<open>rowsPerDoc\<close> of 0 or less gives the groups of \<open>rowsPerDoc = 1\<close>. For
  every \<open>rowsPerDoc\<close> the groups, one after the other, are the rows, and the row ranges,
  one after the other, are the indices from 0 to the number of rows: no row is left out
  and none is taken twice. The number of documents that the Generator component
  estimates for the rows of the session is the number of groups.
\<close>

theorem batch_partition:
  "(1 \<le> rpd \<longrightarrow>
      int (length (batch rows rpd)) = \<lceil>(of_nat (length rows) :: rat) / of_int rpd\<rceil>) \<and>
   (1 \<le> rpd \<and> i < length (batch rows rpd) \<longrightarrow>
      batch rows rpd ! i =
        map (\<lambda>j. rows ! j) [i * nat rpd ..< min ((i + 1) * nat rpd) (length rows)]) \<and>
   (rpd \<le> 0 \<longrightarrow> batch rows rpd = batch rows 1) \<and>
   concat (batch rows rpd) = rows \<and>
   concat (map (\<lambda>i. [fst (rowRange i (length rows) rpd) ..< snd (rowRange i (length rows) rpd)])
             [0..<length (batch rows rpd)]) = [0..<length rows] \<and>
   (g_totalRows g = int (length rows) \<longrightarrow>
      estimatedDocs g = int (length (batch rows (rowsPerDoc g))))"
proof (intro conjI impI)
  assume pos: "1 \<le> rpd"
  then have eff: "(of_nat (effectiveRowsPerDoc rpd) :: rat) = of_int rpd"
    by (simp add: effectiveRowsPerDoc_def)
  have "(0::rat) \<le> of_nat (length rows) / of_int rpd"
    using pos by simp
  then have "(- 1 :: rat) < of_nat (length rows) / of_int rpd"
    by linarith
  then have "0 \<le> \<lceil>(of_nat (length rows) :: rat) / of_int rpd\<rceil>"
    by (simp add: zero_le_ceiling)
  then show "int (length (batch rows rpd)) = \<lceil>(of_nat (length rows) :: rat) / of_int rpd\<rceil>"
    by (simp add: batch_def documentCount_def eff)
next
  assume "1 \<le> rpd \<and> i < length (batch rows rpd)"
  then have pos: "1 \<le> rpd" and i: "i < documentCount (length rows) rpd"
    by (simp_all add: batch_def)
  from pos have "effectiveRowsPerDoc rpd = nat rpd"
    by (simp add: effectiveRowsPerDoc_def)
  with group_rows [OF i]
  show "batch rows rpd ! i =
      map (\<lambda>j. rows ! j) [i * nat rpd ..< min ((i + 1) * nat rpd) (length rows)]"
    by (simp add: rowRange_def)
next
  assume "rpd \<le> 0"
  then show "batch rows rpd = batch rows 1"
    by (simp add: batch_def documentCount_def rowRange_def effectiveRowsPerDoc_def)
next
  show "concat (batch rows rpd) = rows"
    by (rule concat_batch)
next
  show "concat (map (\<lambda>i. [fst (rowRange i (length rows) rpd) ..< snd (rowRange i (length rows) rpd)])
             [0..<length (batch rows rpd)]) = [0..<length rows]"
    using ranges_partition [of "length rows" rpd] by (simp add: batch_def)
next
  assume "g_totalRows g = int (length rows)"
  then show "estimatedDocs g = int (length (batch rows (rowsPerDoc g)))"
    using estimatedDocs_documentCount [of g] by (simp add: batch_def)
qed

theorem batch_partition_witness:
  "int (length (batch [''r0'', ''r1'', ''r2''] 2)) = \<lceil>(of_nat 3 :: rat) / of_int 2\<rceil> \<and>
   batch [''r0'', ''r1'', ''r2''] 2 ! 1 = map (\<lambda>j. [''r0'', ''r1'', ''r2''] ! j) [2..<3] \<and>
   batch [''r0'', ''r1'', ''r2''] 0 = batch [''r0'', ''r1'', ''r2''] 1 \<and>
   estimatedDocs (generator_init\<lparr>g_totalRows := 3, rowsPerDoc := 2\<rparr>) =
     int (length (batch [''r0'', ''r1'', ''r2''] 2))"
proof -
  let ?rows = "[''r0'', ''r1'', ''r2'']"
  let ?g = "generator_init\<lparr>g_totalRows := 3, rowsPerDoc := 2\<rparr>"
  note T = batch_partition [where rows = ?rows and rpd = 2 and i = 1 and g = ?g]
  note T0 = batch_partition [where rows = ?rows and rpd = 0 and i = 1 and g = ?g]
  have len: "length (batch ?rows 2) = 2"
    by code_simp
  have hyp: "(1::int) \<le> 2" "(1::int) \<le> 2 \<and> 1 < length (batch ?rows 2)" "(0::int) \<le> 0"
    "g_totalRows ?g = int (length ?rows)" "rowsPerDoc ?g = 2"
    by (simp_all add: len generator_init_def)
  have A: "int (length (batch ?rows 2)) = \<lceil>(of_nat (length ?rows) :: rat) / of_int 2\<rceil>"
    using T [THEN conjunct1, rule_format, OF hyp(1)] .
  have B: "batch ?rows 2 ! 1 =
      map (\<lambda>j. ?rows ! j) [1 * nat 2 ..< min ((1 + 1) * nat 2) (length ?rows)]"
    using T [THEN conjunct2, THEN conjunct1, rule_format, OF hyp(2)] .
  have C: "batch ?rows 0 = batch ?rows 1"
    using T0 [THEN conjunct2, THEN conjunct2, THEN conjunct1, rule_format, OF hyp(3)] .
  have D: "estimatedDocs ?g = int (length (batch ?rows (rowsPerDoc ?g)))"
    using T [THEN conjunct2, THEN conjunct2, THEN conjunct2, THEN conjunct2, THEN conjunct2,
        rule_format, OF hyp(4)] .
  from A B C D hyp(5) show ?thesis
    by simp
qed

text \<open>
  C9. \<open>processPdfSelection\<close> rejects a file whose lower-cased name does not end in
  \<open>.pdf\<close>: it sets the error message and changes nothing else, so \<open>pdfFile\<close> and \<open>step\<close>
  stay as they were. Any other file becomes \<open>pdfFile\<close>, the error message is cleared and
  \<open>step\<close> becomes 2. Whatever the user does, the form that \<open>handleExtract\<close> posts holds a
  file whose name ends in \<open>.pdf\<close> up to case.
\<close>

theorem processPdfSelection_pdf_only:
  "(\<not> endsWith (toLowerCase (name f)) ''.pdf'' \<longrightarrow>
      processPdfSelection f st = st\<lparr>x_errorMsg := ''Please upload a valid PDF file.''\<rparr> \<and>
      x_errorMsg (processPdfSelection f st) \<noteq> [] \<and>
      pdfFile (processPdfSelection f st) = pdfFile st \<and>
      x_step (processPdfSelection f st) = x_step st) \<and>
   (endsWith (toLowerCase (name f)) ''.pdf'' \<longrightarrow>
      processPdfSelection f st = st\<lparr>pdfFile := Some f, x_errorMsg := [], x_step := 2\<rparr>) \<and>
   (handleExtract_request (extractor_run evs) = Some rq \<longrightarrow>
      endsWith (toLowerCase (name (form_pdfFile rq))) ''.pdf'')"
proof (intro conjI impI)
  assume rq: "handleExtract_request (extractor_run evs) = Some rq"
  then obtain f' where f': "pdfFile (extractor_run evs) = Some f'" "form_pdfFile rq = f'"
    by (auto simp: handleExtract_request_def split: option.splits)
  with pdf_only_run [of evs] show "endsWith (toLowerCase (name (form_pdfFile rq))) ''.pdf''"
    by (simp add: pdf_only_def is_pdf_name_def)
qed (simp_all add: processPdfSelection_def)

theorem processPdfSelection_pdf_only_witness:
  "processPdfSelection \<lparr>name = ''notes.txt'', content = []\<rparr> extractor_init =
     extractor_init\<lparr>x_errorMsg := ''Please upload a valid PDF file.''\<rparr> \<and>
   processPdfSelection \<lparr>name = ''Report.PDF'', content = []\<rparr> extractor_init =
     extractor_init\<lparr>pdfFile := Some \<lparr>name = ''Report.PDF'', content = []\<rparr>,
       x_errorMsg := [], x_step := 2\<rparr> \<and>
   handleExtract_request
     (extractor_run [Select_pdf \<lparr>name = ''notes.txt'', content = []\<rparr>,
        Select_pdf \<lparr>name = ''Report.PDF'', content = []\<rparr>, Click_extract]) =
     Some \<lparr>form_pdfFile = \<lparr>name = ''Report.PDF'', content = []\<rparr>,
       form_processingOption = ''allText'', form_outputFormat = ''excel''\<rparr> \<and>
   endsWith (toLowerCase ''Report.PDF'') ''.pdf''"
proof -
  let ?bad = "\<lparr>name = ''notes.txt'', content = []\<rparr>"
  let ?good = "\<lparr>name = ''Report.PDF'', content = []\<rparr>"
  let ?evs = "[Select_pdf ?bad, Select_pdf ?good, Click_extract]"
  let ?rq = "\<lparr>form_pdfFile = ?good, form_processingOption = ''allText'',
               form_outputFormat = ''excel''\<rparr>"
  have "toLowerCase ''notes.txt'' = ''notes.txt''"
    by code_simp
  moreover have "toLowerCase ''Report.PDF'' = ''report.pdf''"
    by code_simp
  ultimately have lower:
    "toLowerCase ''notes.txt'' = ''notes.txt''" "toLowerCase ''Report.PDF'' = ''report.pdf''"
    by simp_all
  have bad: "\<not> endsWith (toLowerCase (name ?bad)) ''.pdf''"
    by (simp add: lower endsWith_def suffix_def)
  have good: "endsWith (toLowerCase (name ?good)) ''.pdf''"
    by (simp add: lower endsWith_def suffix_def)
  have run: "handleExtract_request (extractor_run ?evs) = Some ?rq"
    using bad good
    by (simp add: extractor_run_def extractor_init_def processPdfSelection_def
        handleExtract_begin_def handleExtract_request_def)
  from processPdfSelection_pdf_only [of ?bad extractor_init ?evs ?rq]
       processPdfSelection_pdf_only [of ?good extractor_init ?evs ?rq] bad good run
  show ?thesis by simp
qed

text \<open>
  C10. \<open>handleGenerate\<close> of the page always ends with \<open>isGenerating\<close> false. When the
  request fails (\<open>fetch\<close> rejects, or the response is not ok) the error message is set,
  to the message of the rejection or to the text \<open>Generation failed\<close>, and nothing else
  changes: \<open>step\<close>, \<open>generationComplete\<close> and \<open>downloadUrl\<close> keep their values. One of
  these three changes only if the response is ok; with an ok response whose blob is
  read, \<open>downloadUrl\<close> is the URL of the blob, \<open>generationComplete\<close> is true and \<open>step\<close>
  is 3.
\<close>

theorem handleGenerate_page_atomic:
  "p_isGenerating (handleGenerate_page st fetched) = False \<and>
   ((\<forall>response. fetched = Resolves response \<longrightarrow> \<not> ok response) \<longrightarrow>
      handleGenerate_page st fetched =
        st\<lparr>p_errorMsg := (case fetched of Rejects m \<Rightarrow> m | Resolves response \<Rightarrow> ''Generation failed''),
           p_isGenerating := False\<rparr>) \<and>
   (p_step (handleGenerate_page st fetched) \<noteq> p_step st \<or>
    p_generationComplete (handleGenerate_page st fetched) \<noteq> p_generationComplete st \<or>
    p_downloadUrl (handleGenerate_page st fetched) \<noteq> p_downloadUrl st \<longrightarrow>
      (\<exists>response. fetched = Resolves response \<and> ok response)) \<and>
   (\<forall>response url. fetched = Resolves response \<and> ok response \<and> blob response = Resolves url \<longrightarrow>
      handleGenerate_page st fetched =
        st\<lparr>p_errorMsg := [], p_downloadUrl := url, p_generationComplete := True, p_step := 3,
           p_isGenerating := False\<rparr>)"
  by (cases fetched)
     (auto simp: handleGenerate_page_def handleGenerate_try_def split: await.splits)

theorem handleGenerate_page_atomic_witness:
  "handleGenerate_page (page_init\<lparr>p_step := 2\<rparr>) (Rejects ''Failed to fetch'') =
     page_init\<lparr>p_step := 2, p_errorMsg := ''Failed to fetch''\<rparr> \<and>
   handleGenerate_page (page_init\<lparr>p_step := 2\<rparr>)
       (Resolves \<lparr>ok = False, json = Rejects [], blob = Resolves ''blob:1''\<rparr>) =
     page_init\<lparr>p_step := 2, p_errorMsg := ''Generation failed''\<rparr> \<and>
   handleGenerate_page (page_init\<lparr>p_step := 2\<rparr>)
       (Resolves \<lparr>ok = True, json = Rejects [], blob = Resolves ''blob:1''\<rparr>) =
     page_init\<lparr>p_step := 3, p_generationComplete := True, p_downloadUrl := ''blob:1''\<rparr>"
proof -
  let ?st = "page_init\<lparr>p_step := 2\<rparr>"
  let ?bad = "\<lparr>ok = False, json = Rejects [], blob = Resolves ''blob:1''\<rparr>"
  let ?good = "\<lparr>ok = True, json = Rejects [], blob = Resolves ''blob:1''\<rparr>"
  from handleGenerate_page_atomic [of ?st "Rejects ''Failed to fetch''"]
       handleGenerate_page_atomic [of ?st "Resolves ?bad"]
       handleGenerate_page_atomic [of ?st "Resolves ?good"]
  show ?thesis
    by (simp add: page_init_def)
qed

end
